theory Spec2Isabelle
  imports Complex_Main
begin

section \<open>Data model\<close>

text \<open>
  Object ids are compared through their string form
  (\<^verbatim>\<open>a.toString() === b.toString()\<close>), so a stored id is its string: 24
  hexadecimal digits in lower case.
\<close>

type_synonym oid = string

text \<open>
  An id arrives in a request as a string, and the store casts it before it queries. A
  string of 24 hexadecimal digits is cast to the id of the same digits in lower case; on
  any other string the query throws a \<^verbatim>\<open>CastError\<close>.
\<close>

definition isHexDigit :: "char \<Rightarrow> bool" where
  "isHexDigit c = (c \<in> set ''0123456789abcdefABCDEF'')"

definition lowerHex :: "char \<Rightarrow> char" where
  "lowerHex c =
     (if c = CHR ''A'' then CHR ''a'' else if c = CHR ''B'' then CHR ''b''
      else if c = CHR ''C'' then CHR ''c'' else if c = CHR ''D'' then CHR ''d''
      else if c = CHR ''E'' then CHR ''e'' else if c = CHR ''F'' then CHR ''f'' else c)"

definition castObjectId :: "string \<Rightarrow> oid option" where
  "castObjectId s =
     (if length s = 24 \<and> list_all isHexDigit s then Some (map lowerHex s) else None)"

text \<open>What \<^verbatim>\<open>findById\<close> does: it throws, resolves to \<^verbatim>\<open>null\<close>, or resolves to a document.\<close>

datatype 'a lookup = CastError | NoDoc | Doc 'a

text \<open>A stored \<^verbatim>\<open>Date\<close> is its time value: milliseconds since the epoch.\<close>

type_synonym msec = int

datatype role = Admin | Landlord | Tenant

text \<open>
  The result kinds of the handlers. In the routes they are the responses
  400 with an \<^verbatim>\<open>errors\<close> array (\<open>ValidationFailed\<close>), 403 \<^verbatim>\<open>Access denied\<close>
  (\<open>Forbidden\<close>), 404 (\<open>NotFound\<close>), 400 with a message (\<open>InvalidState\<close>) and the
  500 \<^verbatim>\<open>Server error\<close> of every \<^verbatim>\<open>catch\<close> block (\<open>ServerError\<close>).
\<close>

datatype error = ValidationFailed | Forbidden | NotFound | InvalidState | ServerError

record user =
  u_id :: oid
  u_role :: role
  u_moveInDate :: "msec option"
  u_leaseEndDate :: "msec option"

datatype propertyStatus = Available | Occupied | Maintenance | Unavailable

record leaseTerms =
  lt_startDate :: "msec option"
  lt_endDate :: "msec option"
  lt_renewalTerms :: "string option"

record property =
  p_id :: oid
  p_name :: string
  p_monthlyRent :: rat
  p_landlord :: oid
  p_currentTenant :: "oid option"
  p_status :: propertyStatus
  p_leaseTerms :: leaseTerms

datatype scheduleStatus = Pending | Paid | Overdue | Partial

datatype paymentMethod = Online | Check | Cash | BankTransfer

datatype frequency = Monthly | Quarterly | Yearly

record rentSchedule =
  rs_id :: oid
  rs_property :: oid
  rs_tenant :: oid
  rs_amount :: rat
  rs_dueDate :: msec
  rs_status :: scheduleStatus
  rs_paymentMethod :: paymentMethod
  rs_lateFee :: rat
  rs_notes :: "string option"
  rs_recurring :: bool
  rs_frequency :: frequency

datatype paymentStatus = PayPending | Completed | Failed | Refunded

record payment =
  pay_id :: oid
  pay_rentSchedule :: oid
  pay_property :: oid
  pay_tenant :: oid
  pay_amount :: rat
  pay_paymentDate :: msec
  pay_paymentMethod :: paymentMethod
  pay_status :: paymentStatus
  pay_transactionId :: string
  pay_notes :: "string option"

text \<open>The four collections. A collection is the list of its documents.\<close>

record store =
  users :: "user list"
  properties :: "property list"
  rentSchedules :: "rentSchedule list"
  payments :: "payment list"

section \<open>Collection operations used by the routes\<close>

definition findDoc :: "('d \<Rightarrow> oid) \<Rightarrow> 'd list \<Rightarrow> string \<Rightarrow> 'd lookup" where
  "findDoc key docs i =
     (case castObjectId i of
        None \<Rightarrow> CastError
      | Some j \<Rightarrow> (case find (\<lambda>d. key d = j) docs of None \<Rightarrow> NoDoc | Some d \<Rightarrow> Doc d))"

definition User_findById :: "store \<Rightarrow> string \<Rightarrow> user lookup" where
  "User_findById st i = findDoc u_id (users st) i"

definition Property_findById :: "store \<Rightarrow> string \<Rightarrow> property lookup" where
  "Property_findById st i = findDoc p_id (properties st) i"

definition RentSchedule_findById :: "store \<Rightarrow> string \<Rightarrow> rentSchedule lookup" where
  "RentSchedule_findById st i = findDoc rs_id (rentSchedules st) i"

text \<open>
  \<^verbatim>\<open>.populate('property', ...)\<close> of a loaded rent schedule: the property that its
  stored reference names, or \<^verbatim>\<open>null\<close>.
\<close>

definition populateProperty :: "store \<Rightarrow> oid \<Rightarrow> property option" where
  "populateProperty st j = find (\<lambda>d. p_id d = j) (properties st)"

text \<open>
  \<^verbatim>\<open>doc.save()\<close> of a loaded document: the stored document of that id is replaced.
  The update and delete operations below are called by the routes with the id string of a
  lookup that has just succeeded; they take the id that this string was cast to, which is
  the id of the found document.
\<close>

definition Property_save :: "property \<Rightarrow> store \<Rightarrow> store" where
  "Property_save p st =
     st\<lparr>properties := map (\<lambda>d. if p_id d = p_id p then p else d) (properties st)\<rparr>"

definition User_findByIdAndUpdate :: "oid \<Rightarrow> (user \<Rightarrow> user) \<Rightarrow> store \<Rightarrow> store" where
  "User_findByIdAndUpdate i f st =
     st\<lparr>users := map (\<lambda>d. if u_id d = i then f d else d) (users st)\<rparr>"

definition RentSchedule_findByIdAndUpdate ::
  "oid \<Rightarrow> (rentSchedule \<Rightarrow> rentSchedule) \<Rightarrow> store \<Rightarrow> store" where
  "RentSchedule_findByIdAndUpdate i f st =
     st\<lparr>rentSchedules := map (\<lambda>d. if rs_id d = i then f d else d) (rentSchedules st)\<rparr>"

definition RentSchedule_findByIdAndDelete :: "oid \<Rightarrow> store \<Rightarrow> store" where
  "RentSchedule_findByIdAndDelete i st =
     st\<lparr>rentSchedules := filter (\<lambda>d. rs_id d \<noteq> i) (rentSchedules st)\<rparr>"

definition Property_findByIdAndDelete :: "oid \<Rightarrow> store \<Rightarrow> store" where
  "Property_findByIdAndDelete i st =
     st\<lparr>properties := filter (\<lambda>d. p_id d \<noteq> i) (properties st)\<rparr>"

section \<open>Middleware\<close>

text \<open>
  Modelled from the spec: the \<^verbatim>\<open>authorize(...roles)\<close> middleware of
  \<^verbatim>\<open>middleware/auth.js\<close>, which is not among the sources. The access table gives
  a role outside the listed ones the result \<open>Forbidden\<close> (assign/remove property:
  tenant forbidden). The principal \<^verbatim>\<open>req.user\<close> comes from the \<^verbatim>\<open>auth\<close> middleware,
  which answers a request without one before any handler runs; the handlers below take
  the principal as an argument.
\<close>

definition authorize :: "role list \<Rightarrow> user \<Rightarrow> bool" where
  "authorize roles u = (u_role u \<in> set roles)"

section \<open>Tenant routes: assign and remove\<close>

record assignReq =
  ar_errors :: "string list"
  ar_id :: string
  ar_propertyId :: string
  ar_moveInDate :: "msec option"
  ar_leaseEndDate :: "msec option"

text \<open>
  \<^verbatim>\<open>POST /api/tenants/:id/assign-property\<close>: the handler body. \<open>ar_errors\<close> is
  \<^verbatim>\<open>validationResult(req)\<close>, \<open>ar_id\<close> is \<^verbatim>\<open>req.params.id\<close>. The result is the
  response and the store after the call; a successful response carries what
  \<^verbatim>\<open>Property.findById\<close> then finds. Assigning the id string to
  \<^verbatim>\<open>property.currentTenant\<close> casts it, to the id of the tenant just found.
\<close>

definition assignProperty ::
  "store \<Rightarrow> user \<Rightarrow> assignReq \<Rightarrow> (error + property option) \<times> store" where
  "assignProperty st reqUser req =
     (if ar_errors req \<noteq> [] then (Inl ValidationFailed, st)
      else (case User_findById st (ar_id req) of
        CastError \<Rightarrow> (Inl ServerError, st)
      | NoDoc \<Rightarrow> (Inl NotFound, st)
      | Doc tenant \<Rightarrow>
          (if u_role tenant \<noteq> Tenant then (Inl NotFound, st)
           else (case Property_findById st (ar_propertyId req) of
             CastError \<Rightarrow> (Inl ServerError, st)
           | NoDoc \<Rightarrow> (Inl NotFound, st)
           | Doc property \<Rightarrow>
               (if u_role reqUser = Landlord \<and> p_landlord property \<noteq> u_id reqUser
                then (Inl Forbidden, st)
                else if p_status property \<noteq> Available then (Inl InvalidState, st)
                else
                  (let p1 = property\<lparr>p_currentTenant := Some (u_id tenant), p_status := Occupied\<rparr>;
                       p2 = (case ar_moveInDate req of
                               None \<Rightarrow> p1
                             | Some d \<Rightarrow> p1\<lparr>p_leaseTerms := (p_leaseTerms p1)\<lparr>lt_startDate := Some d\<rparr>\<rparr>);
                       p3 = (case ar_leaseEndDate req of
                               None \<Rightarrow> p2
                             | Some d \<Rightarrow> p2\<lparr>p_leaseTerms := (p_leaseTerms p2)\<lparr>lt_endDate := Some d\<rparr>\<rparr>);
                       st1 = Property_save p3 st;
                       st2 = (if ar_moveInDate req = None \<and> ar_leaseEndDate req = None then st1
                              else User_findByIdAndUpdate (u_id tenant)
                                     (\<lambda>t. let t1 = (case ar_moveInDate req of
                                                        None \<Rightarrow> t
                                                      | Some d \<Rightarrow> t\<lparr>u_moveInDate := Some d\<rparr>)
                                           in (case ar_leaseEndDate req of
                                                 None \<Rightarrow> t1
                                               | Some d \<Rightarrow> t1\<lparr>u_leaseEndDate := Some d\<rparr>))
                                     st1)
                   in (case Property_findById st2 (ar_propertyId req) of
                         CastError \<Rightarrow> (Inl ServerError, st2)
                       | NoDoc \<Rightarrow> (Inr None, st2)
                       | Doc updatedProperty \<Rightarrow> (Inr (Some updatedProperty), st2))))))))"

text \<open>The route: \<^verbatim>\<open>authorize('admin', 'landlord')\<close> runs before the handler.\<close>

definition assignPropertyRoute ::
  "store \<Rightarrow> user \<Rightarrow> assignReq \<Rightarrow> (error + property option) \<times> store" where
  "assignPropertyRoute st reqUser req =
     (if authorize [Admin, Landlord] reqUser then assignProperty st reqUser req
      else (Inl Forbidden, st))"

record removeReq =
  rr_errors :: "string list"
  rr_id :: string
  rr_propertyId :: string

text \<open>
  \<^verbatim>\<open>POST /api/tenants/:id/remove-property\<close>. The test
  \<^verbatim>\<open>property.currentTenant?.toString() !== tenantId\<close> compares the stored id, or
  \<^verbatim>\<open>undefined\<close> when there is no current tenant, with the id string of the request
  as it was sent.
\<close>

definition removeProperty ::
  "store \<Rightarrow> user \<Rightarrow> removeReq \<Rightarrow> (error + property option) \<times> store" where
  "removeProperty st reqUser req =
     (if rr_errors req \<noteq> [] then (Inl ValidationFailed, st)
      else (case User_findById st (rr_id req) of
        CastError \<Rightarrow> (Inl ServerError, st)
      | NoDoc \<Rightarrow> (Inl NotFound, st)
      | Doc tenant \<Rightarrow>
          (if u_role tenant \<noteq> Tenant then (Inl NotFound, st)
           else (case Property_findById st (rr_propertyId req) of
             CastError \<Rightarrow> (Inl ServerError, st)
           | NoDoc \<Rightarrow> (Inl NotFound, st)
           | Doc property \<Rightarrow>
               (if u_role reqUser = Landlord \<and> p_landlord property \<noteq> u_id reqUser
                then (Inl Forbidden, st)
                else if p_currentTenant property \<noteq> Some (rr_id req) then (Inl InvalidState, st)
                else
                  (let p1 = property\<lparr>p_currentTenant := None, p_status := Available,
                              p_leaseTerms := \<lparr>lt_startDate = None, lt_endDate = None,
                                               lt_renewalTerms = None\<rparr>\<rparr>;
                       st1 = Property_save p1 st
                   in (case Property_findById st1 (rr_propertyId req) of
                         CastError \<Rightarrow> (Inl ServerError, st1)
                       | NoDoc \<Rightarrow> (Inr None, st1)
                       | Doc updatedProperty \<Rightarrow> (Inr (Some updatedProperty), st1))))))))"

definition removePropertyRoute ::
  "store \<Rightarrow> user \<Rightarrow> removeReq \<Rightarrow> (error + property option) \<times> store" where
  "removePropertyRoute st reqUser req =
     (if authorize [Admin, Landlord] reqUser then removeProperty st reqUser req
      else (Inl Forbidden, st))"

text \<open>The occupancy invariant of a property, as the data model states it.\<close>

definition occupancyInvariant :: "property \<Rightarrow> bool" where
  "occupancyInvariant p =
     ((p_status p = Occupied \<longrightarrow> p_currentTenant p \<noteq> None) \<and>
      (p_status p = Available \<longrightarrow> p_currentTenant p = None))"

section \<open>Payment routes\<close>

text \<open>
  What the environment hands to one \<^verbatim>\<open>POST /api/payments\<close> call: \<^verbatim>\<open>Date.now()\<close>,
  the string \<^verbatim>\<open>Math.random().toString(36)\<close> and the \<^verbatim>\<open>_id\<close> that the driver
  generates for the new document.
\<close>

record env =
  e_now :: nat
  e_random36 :: string
  e_newId :: oid

text \<open>The decimal numeral of a number, as a template literal prints it.\<close>

definition digitChar :: "nat \<Rightarrow> char" where
  "digitChar d = ''0123456789'' ! d"

fun showNat :: "nat \<Rightarrow> string" where
  "showNat n =
     (if n < 10 then [digitChar n]
      else showNat (n div 10) @ [digitChar (n mod 10)])"

declare showNat.simps [simp del]

text \<open>\<^verbatim>\<open>`TXN_${Date.now()}_${Math.random().toString(36).substr(2, 9)}`\<close>\<close>

definition transactionId :: "env \<Rightarrow> string" where
  "transactionId e = ''TXN_'' @ showNat (e_now e) @ ''_'' @ take 9 (drop 2 (e_random36 e))"

record paymentReq =
  pr_errors :: "string list"
  pr_rentSchedule :: string
  pr_amount :: rat
  pr_paymentMethod :: paymentMethod
  pr_notes :: "string option"

text \<open>
  \<^verbatim>\<open>payment.save()\<close>: the schema's \<^verbatim>\<open>min: 0\<close> on \<^verbatim>\<open>amount\<close> and the unique index
  on \<^verbatim>\<open>transactionId\<close> reject the document (the call throws); otherwise it is
  inserted.
\<close>

definition Payment_save :: "payment \<Rightarrow> store \<Rightarrow> store option" where
  "Payment_save p st =
     (if pay_amount p < 0 then None
      else if pay_transactionId p \<in> set (map pay_transactionId (payments st)) then None
      else Some (st\<lparr>payments := payments st @ [p]\<rparr>))"

text \<open>
  \<^verbatim>\<open>POST /api/payments\<close>. The schedule is loaded with its property populated, which
  is \<^verbatim>\<open>null\<close> when the property no longer exists; reading \<^verbatim>\<open>.landlord\<close> or
  \<^verbatim>\<open>._id\<close> of it then throws, and every throw ends in the \<^verbatim>\<open>catch\<close> block.
  An admin's access is decided before the property is read, but the payment is not built
  without it. The id string of the request is cast where it is stored and where it is
  queried, to the id of the schedule just found.
\<close>

definition recordPayment ::
  "env \<Rightarrow> store \<Rightarrow> user \<Rightarrow> paymentReq \<Rightarrow> (error + payment) \<times> store" where
  "recordPayment e st reqUser req =
     (if pr_errors req \<noteq> [] then (Inl ValidationFailed, st)
      else (case RentSchedule_findById st (pr_rentSchedule req) of
        CastError \<Rightarrow> (Inl ServerError, st)
      | NoDoc \<Rightarrow> (Inl NotFound, st)
      | Doc rentSchedule \<Rightarrow>
          (case populateProperty st (rs_property rentSchedule) of
             None \<Rightarrow>
               (Inl ServerError, st)
           | Some property \<Rightarrow>
               (if \<not> (u_role reqUser = Admin \<or> p_landlord property = u_id reqUser \<or>
                       rs_tenant rentSchedule = u_id reqUser)
                then (Inl Forbidden, st)
                else
                  (let payment =
                         \<lparr>pay_id = e_newId e,
                          pay_rentSchedule = rs_id rentSchedule,
                          pay_property = p_id property,
                          pay_tenant = rs_tenant rentSchedule,
                          pay_amount = pr_amount req,
                          pay_paymentDate = int (e_now e),
                          pay_paymentMethod = pr_paymentMethod req,
                          pay_status = Completed,
                          pay_transactionId = transactionId e,
                          pay_notes = pr_notes req\<rparr>
                   in (case Payment_save payment st of
                         None \<Rightarrow> (Inl ServerError, st)
                       | Some st1 \<Rightarrow>
                           (let st2 =
                                  (if pr_amount req \<ge> rs_amount rentSchedule
                                   then RentSchedule_findByIdAndUpdate (rs_id rentSchedule)
                                          (\<lambda>d. d\<lparr>rs_status := Paid\<rparr>) st1
                                   else if pr_amount req > 0
                                   then RentSchedule_findByIdAndUpdate (rs_id rentSchedule)
                                          (\<lambda>d. d\<lparr>rs_status := Partial\<rparr>) st1
                                   else st1)
                            in (Inr payment, st2))))))))"

text \<open>
  The query object that the list routes build. \<open>q_property\<close> is either absent, an
  \<^verbatim>\<open>$in\<close> list or one id; the date bounds are \<^verbatim>\<open>$gte\<close> and \<^verbatim>\<open>$lte\<close>.
\<close>

datatype idFilter = IdIn "oid list" | IdEq oid

record 'st listQuery =
  q_tenant :: "oid option"
  q_property :: "idFilter option"
  q_status :: "'st option"
  q_paymentMethod :: "paymentMethod option"
  q_dateGte :: "msec option"
  q_dateLte :: "msec option"

fun idMatches :: "idFilter option \<Rightarrow> oid \<Rightarrow> bool" where
  "idMatches None i = True"
| "idMatches (Some (IdIn is)) i = (i \<in> set is)"
| "idMatches (Some (IdEq j)) i = (i = j)"

fun optMatches :: "'a option \<Rightarrow> 'a \<Rightarrow> bool" where
  "optMatches None x = True"
| "optMatches (Some y) x = (x = y)"

fun gteMatches :: "msec option \<Rightarrow> msec \<Rightarrow> bool" where
  "gteMatches None x = True"
| "gteMatches (Some b) x = (b \<le> x)"

fun lteMatches :: "msec option \<Rightarrow> msec \<Rightarrow> bool" where
  "lteMatches None x = True"
| "lteMatches (Some b) x = (x \<le> b)"

text \<open>
  The parameters of \<^verbatim>\<open>req.query\<close>; \<open>page\<close> and \<open>limit\<close> default to 1 and 10 and
  are taken to be at least 1 (the store skips \<open>(page - 1) * limit\<close> matches and returns
  at most \<open>limit\<close>).
\<close>

record 'st listParams =
  lp_page :: nat
  lp_limit :: nat
  lp_status :: "'st option"
  lp_propertyId :: "oid option"
  lp_tenantId :: "oid option"
  lp_dateFrom :: "msec option"
  lp_dateTo :: "msec option"
  lp_paymentMethod :: "paymentMethod option"

text \<open>
  The role-based part of the query, then the caller's filters, assigned in the order
  of the source: a later assignment to the same key replaces the earlier one.
\<close>

definition paymentsQuery :: "store \<Rightarrow> user \<Rightarrow> paymentStatus listParams \<Rightarrow> paymentStatus listQuery" where
  "paymentsQuery st reqUser ps =
     (let q0 = \<lparr>q_tenant = None, q_property = None, q_status = None, q_paymentMethod = None,
                q_dateGte = None, q_dateLte = None\<rparr>;
          q1 = (if u_role reqUser = Tenant then q0\<lparr>q_tenant := Some (u_id reqUser)\<rparr>
                else if u_role reqUser = Landlord
                then q0\<lparr>q_property :=
                       Some (IdIn (map p_id (filter (\<lambda>p. p_landlord p = u_id reqUser)
                                                (properties st))))\<rparr>
                else q0);
          q2 = (case lp_status ps of None \<Rightarrow> q1 | Some s \<Rightarrow> q1\<lparr>q_status := Some s\<rparr>);
          q3 = (case lp_propertyId ps of None \<Rightarrow> q2 | Some i \<Rightarrow> q2\<lparr>q_property := Some (IdEq i)\<rparr>);
          q4 = (case lp_tenantId ps of
                  None \<Rightarrow> q3
                | Some t \<Rightarrow> if u_role reqUser = Admin then q3\<lparr>q_tenant := Some t\<rparr> else q3);
          q5 = (case lp_paymentMethod ps of
                  None \<Rightarrow> q4 | Some m \<Rightarrow> q4\<lparr>q_paymentMethod := Some m\<rparr>)
      in q5\<lparr>q_dateGte := lp_dateFrom ps, q_dateLte := lp_dateTo ps\<rparr>)"

definition paymentMatches :: "paymentStatus listQuery \<Rightarrow> payment \<Rightarrow> bool" where
  "paymentMatches q d =
     (optMatches (q_tenant q) (pay_tenant d) \<and> idMatches (q_property q) (pay_property d) \<and>
      optMatches (q_status q) (pay_status d) \<and>
      optMatches (q_paymentMethod q) (pay_paymentMethod d) \<and>
      gteMatches (q_dateGte q) (pay_paymentDate d) \<and> lteMatches (q_dateLte q) (pay_paymentDate d))"

text \<open>
  \<^verbatim>\<open>GET /api/payments\<close>: the page of matching payments, newest first, and the total
  count of matches.
\<close>

definition listPayments :: "store \<Rightarrow> user \<Rightarrow> paymentStatus listParams \<Rightarrow> payment list \<times> nat" where
  "listPayments st reqUser ps =
     (let query = paymentsQuery st reqUser ps;
          found = filter (paymentMatches query) (payments st)
      in (take (lp_limit ps)
            (drop ((lp_page ps - 1) * lp_limit ps)
               (sort_key (\<lambda>d. - pay_paymentDate d) found)),
          length found))"

section \<open>Rent schedule routes: list and delete\<close>

text \<open>
  \<^verbatim>\<open>GET /api/rent-schedules\<close> builds its query as the payments list does, without
  the payment method filter and with the date bounds on \<^verbatim>\<open>dueDate\<close>.
\<close>

definition rentSchedulesQuery ::
  "store \<Rightarrow> user \<Rightarrow> scheduleStatus listParams \<Rightarrow> scheduleStatus listQuery" where
  "rentSchedulesQuery st reqUser ps =
     (let q0 = \<lparr>q_tenant = None, q_property = None, q_status = None, q_paymentMethod = None,
                q_dateGte = None, q_dateLte = None\<rparr>;
          q1 = (if u_role reqUser = Tenant then q0\<lparr>q_tenant := Some (u_id reqUser)\<rparr>
                else if u_role reqUser = Landlord
                then q0\<lparr>q_property :=
                       Some (IdIn (map p_id (filter (\<lambda>p. p_landlord p = u_id reqUser)
                                                (properties st))))\<rparr>
                else q0);
          q2 = (case lp_status ps of None \<Rightarrow> q1 | Some s \<Rightarrow> q1\<lparr>q_status := Some s\<rparr>);
          q3 = (case lp_propertyId ps of None \<Rightarrow> q2 | Some i \<Rightarrow> q2\<lparr>q_property := Some (IdEq i)\<rparr>);
          q4 = (case lp_tenantId ps of
                  None \<Rightarrow> q3
                | Some t \<Rightarrow> if u_role reqUser = Admin then q3\<lparr>q_tenant := Some t\<rparr> else q3)
      in q4\<lparr>q_dateGte := lp_dateFrom ps, q_dateLte := lp_dateTo ps\<rparr>)"

definition scheduleMatches :: "scheduleStatus listQuery \<Rightarrow> rentSchedule \<Rightarrow> bool" where
  "scheduleMatches q d =
     (optMatches (q_tenant q) (rs_tenant d) \<and> idMatches (q_property q) (rs_property d) \<and>
      optMatches (q_status q) (rs_status d) \<and>
      gteMatches (q_dateGte q) (rs_dueDate d) \<and> lteMatches (q_dateLte q) (rs_dueDate d))"

definition listRentSchedules ::
  "store \<Rightarrow> user \<Rightarrow> scheduleStatus listParams \<Rightarrow> rentSchedule list \<times> nat" where
  "listRentSchedules st reqUser ps =
     (let query = rentSchedulesQuery st reqUser ps;
          found = filter (scheduleMatches query) (rentSchedules st)
      in (take (lp_limit ps)
            (drop ((lp_page ps - 1) * lp_limit ps) (sort_key rs_dueDate found)),
          length found))"

text \<open>
  \<^verbatim>\<open>DELETE /api/rent-schedules/:id\<close>; \<open>i\<close> is \<^verbatim>\<open>req.params.id\<close>. The route runs
  \<^verbatim>\<open>auth\<close> only. For a
  landlord the populated property is read, which throws when the property no longer
  exists; for the other roles the first operand of \<^verbatim>\<open>&&\<close> is false and the
  property is never read.
\<close>

definition deleteRentSchedule :: "store \<Rightarrow> user \<Rightarrow> string \<Rightarrow> (error + unit) \<times> store" where
  "deleteRentSchedule st reqUser i =
     (case RentSchedule_findById st i of
        CastError \<Rightarrow> (Inl ServerError, st)
      | NoDoc \<Rightarrow> (Inl NotFound, st)
      | Doc rentSchedule \<Rightarrow>
          (if u_role reqUser = Landlord
           then (case populateProperty st (rs_property rentSchedule) of
                   None \<Rightarrow> (Inl ServerError, st)
                 | Some property \<Rightarrow>
                     (if p_landlord property \<noteq> u_id reqUser then (Inl Forbidden, st)
                      else (Inr (), RentSchedule_findByIdAndDelete (rs_id rentSchedule) st)))
           else (Inr (), RentSchedule_findByIdAndDelete (rs_id rentSchedule) st)))"

section \<open>Property routes: update and delete\<close>

text \<open>
  The body of \<^verbatim>\<open>PUT /api/properties/:id\<close>, handed as it is to
  \<^verbatim>\<open>findByIdAndUpdate\<close>: every field is optional, and \<^verbatim>\<open>currentTenant\<close> may be
  given as \<^verbatim>\<open>null\<close>. The ids in it are taken as the store casts them.
\<close>

record propertyBody =
  pb_errors :: "string list"
  pb_name :: "string option"
  pb_monthlyRent :: "rat option"
  pb_status :: "propertyStatus option"
  pb_landlord :: "oid option"
  pb_currentTenant :: "oid option option"

definition applyBody :: "propertyBody \<Rightarrow> property \<Rightarrow> property" where
  "applyBody b p =
     (let p1 = (case pb_name b of None \<Rightarrow> p | Some n \<Rightarrow> p\<lparr>p_name := n\<rparr>);
          p2 = (case pb_monthlyRent b of None \<Rightarrow> p1 | Some r \<Rightarrow> p1\<lparr>p_monthlyRent := r\<rparr>);
          p3 = (case pb_status b of None \<Rightarrow> p2 | Some s \<Rightarrow> p2\<lparr>p_status := s\<rparr>);
          p4 = (case pb_landlord b of None \<Rightarrow> p3 | Some l \<Rightarrow> p3\<lparr>p_landlord := l\<rparr>)
      in (case pb_currentTenant b of None \<Rightarrow> p4 | Some t \<Rightarrow> p4\<lparr>p_currentTenant := t\<rparr>))"

text \<open>
  \<^verbatim>\<open>PUT /api/properties/:id\<close>; \<open>i\<close> is \<^verbatim>\<open>req.params.id\<close>. The route runs
  \<^verbatim>\<open>auth\<close> only. With
  \<^verbatim>\<open>runValidators\<close> the schema's \<^verbatim>\<open>min: 0\<close> on \<^verbatim>\<open>monthlyRent\<close> makes the update
  throw on a negative rent.
\<close>

definition updateProperty ::
  "store \<Rightarrow> user \<Rightarrow> string \<Rightarrow> propertyBody \<Rightarrow> (error + property) \<times> store" where
  "updateProperty st reqUser i b =
     (if pb_errors b \<noteq> [] then (Inl ValidationFailed, st)
      else (case Property_findById st i of
        CastError \<Rightarrow> (Inl ServerError, st)
      | NoDoc \<Rightarrow> (Inl NotFound, st)
      | Doc property \<Rightarrow>
          (if u_role reqUser = Landlord \<and> p_landlord property \<noteq> u_id reqUser
           then (Inl Forbidden, st)
           else (case pb_monthlyRent b of
                   Some r \<Rightarrow>
                     (if r < 0 then (Inl ServerError, st)
                      else (Inr (applyBody b property), Property_save (applyBody b property) st))
                 | None \<Rightarrow>
                     (Inr (applyBody b property), Property_save (applyBody b property) st)))))"

text \<open>\<^verbatim>\<open>DELETE /api/properties/:id\<close>. The route runs \<^verbatim>\<open>auth\<close> only.\<close>

definition deleteProperty :: "store \<Rightarrow> user \<Rightarrow> string \<Rightarrow> (error + unit) \<times> store" where
  "deleteProperty st reqUser i =
     (case Property_findById st i of
        CastError \<Rightarrow> (Inl ServerError, st)
      | NoDoc \<Rightarrow> (Inl NotFound, st)
      | Doc property \<Rightarrow>
          (if u_role reqUser = Landlord \<and> p_landlord property \<noteq> u_id reqUser
           then (Inl Forbidden, st)
           else (Inr (), Property_findByIdAndDelete (p_id property) st)))"

section \<open>Dates\<close>

text \<open>
  The time value of a \<^verbatim>\<open>Date\<close> object is a number of milliseconds since the epoch,
  or \<^verbatim>\<open>NaN\<close> for an invalid date: \<open>None\<close> here. The functions below are the
  abstract operations of the language standard on time values ("Day Number and Time
  within Day", "Year Number", "Month Number", "Date Number", \<^verbatim>\<open>MakeDay\<close>,
  \<^verbatim>\<open>MakeDate\<close>, \<^verbatim>\<open>TimeClip\<close>), which \<^verbatim>\<open>getMonth\<close>, \<^verbatim>\<open>setMonth\<close>,
  \<^verbatim>\<open>getFullYear\<close> and \<^verbatim>\<open>setFullYear\<close> are defined by.
\<close>

type_synonym jsdate = "msec option"

definition msPerDay :: int where
  "msPerDay = 86400000"

definition Day :: "int \<Rightarrow> int" where
  "Day t = t div msPerDay"

definition TimeWithinDay :: "int \<Rightarrow> int" where
  "TimeWithinDay t = t mod msPerDay"

definition DaysInYear :: "int \<Rightarrow> int" where
  "DaysInYear y =
     (if y mod 4 \<noteq> 0 then 365 else if y mod 100 \<noteq> 0 then 366
      else if y mod 400 \<noteq> 0 then 365 else 366)"

definition DayFromYear :: "int \<Rightarrow> int" where
  "DayFromYear y =
     365 * (y - 1970) + (y - 1969) div 4 - (y - 1901) div 100 + (y - 1601) div 400"

text \<open>
  The year of a day number. The standard defines it as the largest year whose first day
  is not after the day; here it is computed from the mean length of a year and corrected
  by at most one (\<open>YearFromDay_bounds\<close> and \<open>YearFromDay_largest\<close> below show that
  the two agree).
\<close>

definition YearFromDay :: "int \<Rightarrow> int" where
  "YearFromDay z =
     (let y = 1970 + (400 * z) div 146097
      in if DayFromYear (y + 1) \<le> z then y + 1 else if z < DayFromYear y then y - 1 else y)"

definition YearFromTime :: "int \<Rightarrow> int" where
  "YearFromTime t = YearFromDay (Day t)"

definition LeapFlag :: "int \<Rightarrow> int" where
  "LeapFlag y = (if DaysInYear y = 366 then 1 else 0)"

definition InLeapYear :: "int \<Rightarrow> int" where
  "InLeapYear t = LeapFlag (YearFromTime t)"

definition DayWithinYear :: "int \<Rightarrow> int" where
  "DayWithinYear t = Day t - DayFromYear (YearFromTime t)"

text \<open>The day within the year on which month \<open>m\<close> (0 to 11) starts; \<open>l\<close> is the leap flag.\<close>

definition monthStart :: "int \<Rightarrow> int \<Rightarrow> int" where
  "monthStart m l =
     (if m = 0 then 0 else if m = 1 then 31 else if m = 2 then 59 + l
      else if m = 3 then 90 + l else if m = 4 then 120 + l else if m = 5 then 151 + l
      else if m = 6 then 181 + l else if m = 7 then 212 + l else if m = 8 then 243 + l
      else if m = 9 then 273 + l else if m = 10 then 304 + l else 334 + l)"

definition MonthFromTime :: "int \<Rightarrow> int" where
  "MonthFromTime t =
     (let d = DayWithinYear t; l = InLeapYear t
      in if d < 31 then 0 else if d < 59 + l then 1 else if d < 90 + l then 2
         else if d < 120 + l then 3 else if d < 151 + l then 4 else if d < 181 + l then 5
         else if d < 212 + l then 6 else if d < 243 + l then 7 else if d < 273 + l then 8
         else if d < 304 + l then 9 else if d < 334 + l then 10 else 11)"

definition DateFromTime :: "int \<Rightarrow> int" where
  "DateFromTime t = DayWithinYear t - monthStart (MonthFromTime t) (InLeapYear t) + 1"

text \<open>
  \<^verbatim>\<open>MakeDay\<close>: the day number of the first of month \<open>month mod 12\<close> in year
  \<open>year + month div 12\<close>, plus \<open>date - 1\<close>. A date beyond the month's end runs over
  into the following month.
\<close>

definition MakeDay :: "int \<Rightarrow> int \<Rightarrow> int \<Rightarrow> int" where
  "MakeDay year month date =
     (let ym = year + month div 12; mn = month mod 12
      in DayFromYear ym + monthStart mn (LeapFlag ym) + date - 1)"

definition MakeDate :: "int \<Rightarrow> int \<Rightarrow> int" where
  "MakeDate day time = day * msPerDay + time"

definition TimeClip :: "int \<Rightarrow> jsdate" where
  "TimeClip t = (if \<bar>t\<bar> > 8640000000000000 then None else Some t)"

text \<open>
  The getters and setters work on the server's local time. A time zone is given by the
  offset from UTC, in milliseconds, that applies at a UTC time, and by the offset that
  applies at a local time (at a local time that a transition repeats, the earlier
  offset; at a local time that a transition skips, the offset before the transition).
  No zone's offset reaches a day, and \<open>boundOffset\<close> makes this bound part of the model:
  it leaves every offset of at most a day as it is.
\<close>

record zone =
  z_offsetAt :: "msec \<Rightarrow> int"
  z_offsetOfLocal :: "int \<Rightarrow> int"

definition boundOffset :: "int \<Rightarrow> int" where
  "boundOffset x = max (- msPerDay) (min msPerDay x)"

definition LocalTime :: "zone \<Rightarrow> msec \<Rightarrow> int" where
  "LocalTime z t = t + boundOffset (z_offsetAt z t)"

definition UTC :: "zone \<Rightarrow> int \<Rightarrow> msec" where
  "UTC z t = t - boundOffset (z_offsetOfLocal z t)"

definition getMonth :: "zone \<Rightarrow> msec \<Rightarrow> int" where
  "getMonth z tv = MonthFromTime (LocalTime z tv)"

definition getFullYear :: "zone \<Rightarrow> msec \<Rightarrow> int" where
  "getFullYear z tv = YearFromTime (LocalTime z tv)"

definition setMonth :: "zone \<Rightarrow> msec \<Rightarrow> int \<Rightarrow> jsdate" where
  "setMonth z tv m =
     (let t = LocalTime z tv;
          newDate = MakeDate (MakeDay (YearFromTime t) m (DateFromTime t)) (TimeWithinDay t)
      in TimeClip (UTC z newDate))"

definition setFullYear :: "zone \<Rightarrow> msec \<Rightarrow> int \<Rightarrow> jsdate" where
  "setFullYear z tv y =
     (let t = LocalTime z tv;
          newDate = MakeDate (MakeDay y (MonthFromTime t) (DateFromTime t)) (TimeWithinDay t)
      in TimeClip (UTC z newDate))"

text \<open>A zone with one offset at all times, and UTC.\<close>

definition fixedZone :: "int \<Rightarrow> zone" where
  "fixedZone off = \<lparr>z_offsetAt = (\<lambda>t. off), z_offsetOfLocal = (\<lambda>t. off)\<rparr>"

definition utcZone :: zone where
  "utcZone = fixedZone 0"

text \<open>\<^verbatim>\<open>a <= b\<close> on two dates: false when either is invalid.\<close>

fun dateLe :: "jsdate \<Rightarrow> jsdate \<Rightarrow> bool" where
  "dateLe (Some a) (Some b) = (a \<le> b)"
| "dateLe _ _ = False"

section \<open>Bulk creation of rent schedules\<close>

text \<open>The \<^verbatim>\<open>switch (frequency)\<close> of the loop body: the next value of \<^verbatim>\<open>currentDate\<close>.\<close>

definition nextDate :: "zone \<Rightarrow> frequency \<Rightarrow> msec \<Rightarrow> jsdate" where
  "nextDate z f tv =
     (case f of
        Monthly \<Rightarrow> setMonth z tv (getMonth z tv + 1)
      | Quarterly \<Rightarrow> setMonth z tv (getMonth z tv + 3)
      | Yearly \<Rightarrow> setFullYear z tv (getFullYear z tv + 1))"

text \<open>The step on a date that may be invalid: an invalid date stays invalid.\<close>

definition advance :: "zone \<Rightarrow> frequency \<Rightarrow> jsdate \<Rightarrow> jsdate" where
  "advance z f d = (case d of None \<Rightarrow> None | Some tv \<Rightarrow> nextDate z f tv)"

record bulkReq =
  br_errors :: "string list"
  br_property :: string
  br_tenant :: string
  br_amount :: rat
  br_startDate :: jsdate
  br_endDate :: jsdate
  br_frequency :: frequency
  br_paymentMethod :: "paymentMethod option"

text \<open>An element of the \<^verbatim>\<open>schedules\<close> array, before it is inserted.\<close>

record scheduleDoc =
  sd_property :: string
  sd_tenant :: string
  sd_amount :: rat
  sd_dueDate :: msec
  sd_paymentMethod :: paymentMethod
  sd_recurring :: bool
  sd_frequency :: frequency

definition mkDoc :: "bulkReq \<Rightarrow> msec \<Rightarrow> scheduleDoc" where
  "mkDoc req c =
     \<lparr>sd_property = br_property req, sd_tenant = br_tenant req, sd_amount = br_amount req,
      sd_dueDate = c,
      sd_paymentMethod = (case br_paymentMethod req of None \<Rightarrow> Online | Some m \<Rightarrow> m),
      sd_recurring = True, sd_frequency = br_frequency req\<rparr>"

subsection \<open>The date arithmetic that the loop's termination rests on\<close>

lemma div_bounds:
  fixes a k :: int
  assumes "0 < k"
  shows "k * (a div k) \<le> a" and "a < k * (a div k) + k"
proof -
  have "a = k * (a div k) + a mod k" by simp
  moreover have "0 \<le> a mod k" "a mod k < k" using assms by simp_all
  ultimately show "k * (a div k) \<le> a" and "a < k * (a div k) + k" by linarith+
qed

lemma div_succ:
  fixes a k :: int
  assumes "0 < k"
  shows "(a + 1) div k = (if (a + 1) mod k = 0 then a div k + 1 else a div k)"
proof -
  define q where "q = a div k"
  define r where "r = a mod k"
  have a: "a = k * q + r" and r: "0 \<le> r" "r < k"
    using assms by (simp_all add: q_def r_def)
  show ?thesis
  proof (cases "r + 1 = k")
    case True
    then have "a + 1 = k * (q + 1) + 0" using a by (simp add: algebra_simps)
    then have "(a + 1) div k = q + 1" "(a + 1) mod k = 0"
      using assms int_div_pos_eq[of "a + 1" k "q + 1" 0] int_mod_pos_eq[of "a + 1" k "q + 1" 0]
      by simp_all
    then show ?thesis by (simp add: q_def)
  next
    case False
    then have lt: "r + 1 < k" using r by simp
    have "a + 1 = k * q + (r + 1)" using a by simp
    moreover have "0 \<le> r + 1" using r by simp
    ultimately have "(a + 1) div k = q" "(a + 1) mod k = r + 1"
      using lt int_div_pos_eq[of "a + 1" k q "r + 1"] int_mod_pos_eq[of "a + 1" k q "r + 1"]
      by simp_all
    then show ?thesis using r by (simp add: q_def)
  qed
qed

lemma mod_shift:
  fixes y :: int
  shows "(y - 1968) mod 4 = y mod 4" and "(y - 1900) mod 100 = y mod 100"
    and "(y - 1600) mod 400 = y mod 400"
  using mod_mult_self2[of y 4 "-492"] mod_mult_self2[of y 100 "-19"]
    mod_mult_self2[of y 400 "-4"]
  by simp_all

lemma DayFromYear_Suc: "DayFromYear (y + 1) = DayFromYear y + DaysInYear y"
proof -
  have d4: "y mod 4 = 0" if "y mod 100 = 0"
  proof -
    have "(100::int) dvd y" using that by (simp add: dvd_eq_mod_eq_0)
    moreover have "(4::int) dvd 100" by simp
    ultimately have "(4::int) dvd y" by (rule dvd_trans[rotated])
    then show ?thesis by (simp add: dvd_eq_mod_eq_0)
  qed
  have d100: "y mod 100 = 0" if "y mod 400 = 0"
  proof -
    have "(400::int) dvd y" using that by (simp add: dvd_eq_mod_eq_0)
    moreover have "(100::int) dvd 400" by simp
    ultimately have "(100::int) dvd y" by (rule dvd_trans[rotated])
    then show ?thesis by (simp add: dvd_eq_mod_eq_0)
  qed
  have e4: "(y + 1 - 1969) div 4 =
      (if y mod 4 = 0 then (y - 1969) div 4 + 1 else (y - 1969) div 4)"
    using div_succ[of 4 "y - 1969"] mod_shift(1)[of y] by (simp add: algebra_simps)
  have e100: "(y + 1 - 1901) div 100 =
      (if y mod 100 = 0 then (y - 1901) div 100 + 1 else (y - 1901) div 100)"
    using div_succ[of 100 "y - 1901"] mod_shift(2)[of y] by (simp add: algebra_simps)
  have e400: "(y + 1 - 1601) div 400 =
      (if y mod 400 = 0 then (y - 1601) div 400 + 1 else (y - 1601) div 400)"
    using div_succ[of 400 "y - 1601"] mod_shift(3)[of y] by (simp add: algebra_simps)
  show ?thesis
    unfolding DayFromYear_def DaysInYear_def e4 e100 e400
    using d4 d100 by auto
qed

lemma DayFromYear_est:
  fixes z :: int
  defines "y \<equiv> 1970 + (400 * z) div 146097"
  shows "DayFromYear (y - 1) \<le> z" and "z < DayFromYear (y + 2)"
proof -
  define e where "e = (400 * z) div 146097"
  have e: "146097 * e \<le> 400 * z" "400 * z < 146097 * e + 146097"
    using div_bounds[of 146097 "400 * z"] by (simp_all add: e_def)
  have y: "y = 1970 + e" by (simp add: y_def e_def)
  define a4 where "a4 = (y - 1 - 1969) div 4"
  define a100 where "a100 = (y - 1 - 1901) div 100"
  define a400 where "a400 = (y - 1 - 1601) div 400"
  have a: "4 * a4 \<le> e" "e + 68 < 100 * a100 + 100" "400 * a400 \<le> e + 368"
    using div_bounds[of 4 "y - 1 - 1969"] div_bounds[of 100 "y - 1 - 1901"]
      div_bounds[of 400 "y - 1 - 1601"]
    by (simp_all add: a4_def a100_def a400_def y)
  have "DayFromYear (y - 1) = 365 * e - 365 + a4 - a100 + a400"
    by (simp add: DayFromYear_def a4_def a100_def a400_def y)
  with a e show "DayFromYear (y - 1) \<le> z" by linarith
  define b4 where "b4 = (y + 2 - 1969) div 4"
  define b100 where "b100 = (y + 2 - 1901) div 100"
  define b400 where "b400 = (y + 2 - 1601) div 400"
  have b: "e + 3 < 4 * b4 + 4" "100 * b100 \<le> e + 71" "e + 371 < 400 * b400 + 400"
    using div_bounds[of 4 "y + 2 - 1969"] div_bounds[of 100 "y + 2 - 1901"]
      div_bounds[of 400 "y + 2 - 1601"]
    by (simp_all add: b4_def b100_def b400_def y)
  have "DayFromYear (y + 2) = 365 * e + 730 + b4 - b100 + b400"
    by (simp add: DayFromYear_def b4_def b100_def b400_def y)
  with b e show "z < DayFromYear (y + 2)" by linarith
qed

lemma DaysInYear_range: "DaysInYear y = 365 \<or> DaysInYear y = 366"
  by (simp add: DaysInYear_def)

lemma DayFromYear_strict_mono: "y < y' \<Longrightarrow> DayFromYear y < DayFromYear y'"
proof -
  have step: "DayFromYear y < DayFromYear (y + 1)" for y
    using DayFromYear_Suc[of y] DaysInYear_range[of y] by linarith
  have "DayFromYear y < DayFromYear (y + 1 + int n)" for n
  proof (induction n)
    case 0
    show ?case using step by simp
  next
    case (Suc n)
    have "DayFromYear (y + 1 + int n) < DayFromYear (y + 1 + int n + 1)" by (rule step)
    with Suc show ?case by (simp add: add.assoc)
  qed
  moreover assume "y < y'"
  then have "y' = y + 1 + int (nat (y' - y - 1))" by simp
  ultimately show ?thesis by metis
qed

lemma YearFromDay_bounds:
  shows "DayFromYear (YearFromDay z) \<le> z" and "z < DayFromYear (YearFromDay z + 1)"
proof -
  define y where "y = 1970 + (400 * z) div 146097"
  have lo: "DayFromYear (y - 1) \<le> z" and hi: "z < DayFromYear (y + 2)"
    using DayFromYear_est[of z] by (simp_all add: y_def)
  have yfd: "YearFromDay z =
      (if DayFromYear (y + 1) \<le> z then y + 1 else if z < DayFromYear y then y - 1 else y)"
    by (simp add: YearFromDay_def Let_def y_def)
  show "DayFromYear (YearFromDay z) \<le> z"
    using lo by (simp add: yfd)
  show "z < DayFromYear (YearFromDay z + 1)"
    using hi by (auto simp add: yfd add.commute)
qed

text \<open>YearFromDay z is the largest year whose first day is not after z.\<close>
lemma YearFromDay_largest:
  "DayFromYear y \<le> z \<Longrightarrow> y \<le> YearFromDay z"
proof (rule ccontr)
  assume a: "DayFromYear y \<le> z" and "\<not> y \<le> YearFromDay z"
  then have "YearFromDay z + 1 \<le> y" by simp
  then have "DayFromYear (YearFromDay z + 1) \<le> DayFromYear y"
    using DayFromYear_strict_mono[of "YearFromDay z + 1" y] by (cases "YearFromDay z + 1 = y") auto
  with YearFromDay_bounds(2)[of z] a show False by linarith
qed


lemma LeapFlag_range: "LeapFlag y = 0 \<or> LeapFlag y = 1"
  by (simp add: LeapFlag_def)

lemma MonthFromTime_range: "0 \<le> MonthFromTime t \<and> MonthFromTime t \<le> 11"
  by (simp add: MonthFromTime_def Let_def)

lemma Day_decomp:
  "Day t = DayFromYear (YearFromTime t) + monthStart (MonthFromTime t) (InLeapYear t) +
           DateFromTime t - 1"
  by (simp add: DateFromTime_def DayWithinYear_def)

lemma monthStart_bounds:
  assumes "l = 0 \<or> l = 1"
  shows "0 \<le> monthStart m l" and "monthStart m l \<le> 335"
  using assms by (auto simp: monthStart_def)

lemma monthStart_step:
  assumes "l = 0 \<or> l = 1" and "0 \<le> m" and "m + k \<le> 11" and "1 \<le> k"
  shows "monthStart m l + 28 \<le> monthStart (m + k) l"
proof -
  have "m = 0 \<or> m = 1 \<or> m = 2 \<or> m = 3 \<or> m = 4 \<or> m = 5 \<or> m = 6 \<or> m = 7 \<or> m = 8 \<or> m = 9 \<or> m = 10"
    using assms by arith
  moreover have "m + k = 1 \<or> m + k = 2 \<or> m + k = 3 \<or> m + k = 4 \<or> m + k = 5 \<or> m + k = 6 \<or>
      m + k = 7 \<or> m + k = 8 \<or> m + k = 9 \<or> m + k = 10 \<or> m + k = 11"
    using assms by arith
  moreover have "m < m + k" using assms by simp
  ultimately show ?thesis
    using assms(1) unfolding monthStart_def by (elim disjE) simp_all
qed

lemma month_step_days:
  assumes "0 \<le> m" and "m \<le> 11" and "k = 1 \<or> k = 3"
  shows "DayFromYear y + monthStart m (LeapFlag y) + 28 \<le>
         DayFromYear (y + (m + k) div 12) +
         monthStart ((m + k) mod 12) (LeapFlag (y + (m + k) div 12))"
proof (cases "m + k \<le> 11")
  case True
  moreover have "0 \<le> m + k" "m + k < 12"
    using assms True by auto
  ultimately have "(m + k) div 12 = 0" "(m + k) mod 12 = m + k"
    by (simp_all add: div_pos_pos_trivial mod_pos_pos_trivial)
  moreover have "monthStart m (LeapFlag y) + 28 \<le> monthStart (m + k) (LeapFlag y)"
    using LeapFlag_range[of y] assms True by (intro monthStart_step) auto
  ultimately show ?thesis by simp
next
  case False
  then have "12 \<le> m + k" "m + k < 24" using assms by auto
  then have dm: "(m + k) div 12 = 1" by simp
  have "DayFromYear (y + 1) \<ge> DayFromYear y + 365"
    using DayFromYear_Suc[of y] DaysInYear_range[of y] by linarith
  moreover have "monthStart m (LeapFlag y) \<le> 335"
    using LeapFlag_range[of y] by (rule monthStart_bounds)
  moreover have "0 \<le> monthStart ((m + k) mod 12) (LeapFlag (y + 1))"
    using LeapFlag_range[of "y + 1"] by (rule monthStart_bounds)
  ultimately show ?thesis
    unfolding dm by linarith
qed

lemma year_step_days:
  "DayFromYear y + monthStart m (LeapFlag y) + 28 \<le>
   DayFromYear (y + 1) + monthStart m (LeapFlag (y + 1))"
proof -
  have "DayFromYear (y + 1) \<ge> DayFromYear y + 365"
    using DayFromYear_Suc[of y] DaysInYear_range[of y] by linarith
  moreover have "monthStart m (LeapFlag y) \<le> monthStart m (LeapFlag (y + 1)) + 1"
    using LeapFlag_range[of y] LeapFlag_range[of "y + 1"] by (auto simp: monthStart_def)
  ultimately show ?thesis by linarith
qed

lemma MakeDate_later:
  assumes "Day t + 28 \<le> d"
  shows "t + 28 * msPerDay \<le> MakeDate d (TimeWithinDay t)"
proof -
  have "t = Day t * msPerDay + TimeWithinDay t"
    by (simp add: Day_def TimeWithinDay_def)
  moreover have "(Day t + 28) * msPerDay \<le> d * msPerDay"
    using assms by (simp add: msPerDay_def)
  ultimately show ?thesis
    unfolding MakeDate_def by (simp add: algebra_simps)
qed

lemma boundOffset_range: "- msPerDay \<le> boundOffset x \<and> boundOffset x \<le> msPerDay"
  by (simp add: boundOffset_def msPerDay_def)

text \<open>A local time four weeks later is a later instant, whatever the offsets are.\<close>

lemma UTC_later:
  assumes "LocalTime z tv + 28 * msPerDay \<le> n"
  shows "tv < UTC z n"
  using assms boundOffset_range[of "z_offsetAt z tv"] boundOffset_range[of "z_offsetOfLocal z n"]
  by (simp add: LocalTime_def UTC_def msPerDay_def)

lemma setMonth_later:
  assumes "k = 1 \<or> k = 3" and "setMonth z tv (getMonth z tv + k) = Some tv'"
  shows "tv < tv'"
proof -
  define t where "t = LocalTime z tv"
  define d where "d = MakeDay (YearFromTime t) (MonthFromTime t + k) (DateFromTime t)"
  have "Day t + 28 \<le> d"
    using month_step_days[of "MonthFromTime t" k "YearFromTime t"] MonthFromTime_range[of t]
      assms(1) Day_decomp[of t]
    by (simp add: d_def MakeDay_def Let_def InLeapYear_def)
  then have "t + 28 * msPerDay \<le> MakeDate d (TimeWithinDay t)"
    by (rule MakeDate_later)
  then have "tv < UTC z (MakeDate d (TimeWithinDay t))"
    unfolding t_def by (rule UTC_later)
  moreover have "tv' = UTC z (MakeDate d (TimeWithinDay t))"
    using assms(2)
    by (simp add: setMonth_def getMonth_def Let_def TimeClip_def t_def d_def split: if_splits)
  ultimately show ?thesis
    by simp
qed

lemma setFullYear_later:
  assumes "setFullYear z tv (getFullYear z tv + 1) = Some tv'"
  shows "tv < tv'"
proof -
  define t where "t = LocalTime z tv"
  define d where "d = MakeDay (YearFromTime t + 1) (MonthFromTime t) (DateFromTime t)"
  have m: "MonthFromTime t div 12 = 0" "MonthFromTime t mod 12 = MonthFromTime t"
    using MonthFromTime_range[of t] by simp_all
  have "Day t + 28 \<le> d"
    using year_step_days[of "YearFromTime t" "MonthFromTime t"] Day_decomp[of t]
    by (simp add: d_def MakeDay_def Let_def InLeapYear_def m)
  then have "t + 28 * msPerDay \<le> MakeDate d (TimeWithinDay t)"
    by (rule MakeDate_later)
  then have "tv < UTC z (MakeDate d (TimeWithinDay t))"
    unfolding t_def by (rule UTC_later)
  moreover have "tv' = UTC z (MakeDate d (TimeWithinDay t))"
    using assms
    by (simp add: setFullYear_def getFullYear_def Let_def TimeClip_def t_def d_def split: if_splits)
  ultimately show ?thesis
    by simp
qed

lemma nextDate_later: "nextDate z f tv = Some tv' \<Longrightarrow> tv < tv'"
  by (cases f) (auto simp: nextDate_def dest: setMonth_later[rotated] setFullYear_later)

subsection \<open>The loop\<close>

text \<open>
  \<^verbatim>\<open>while (currentDate <= end) { schedules.push({...}); switch (frequency) {...} }\<close>
  with \<open>e\<close> the end date and \<open>c\<close> the current date. Each step moves the current date
  forward (by four weeks of local time at least) or makes it invalid, so the loop ends.
\<close>

function bulkLoop :: "zone \<Rightarrow> bulkReq \<Rightarrow> jsdate \<Rightarrow> jsdate \<Rightarrow> scheduleDoc list" where
  "bulkLoop z req (Some e) (Some c) =
     (if c \<le> e
      then mkDoc req c # bulkLoop z req (Some e) (nextDate z (br_frequency req) c)
      else [])"
| "bulkLoop z req None c = []"
| "bulkLoop z req (Some e) None = []"
  by pat_completeness auto
termination
proof (relation "measure (\<lambda>(z, req, e, c).
    case (e, c) of (Some e', Some c') \<Rightarrow> nat (e' + 1 - c') | _ \<Rightarrow> 0)")
  show "wf (measure (\<lambda>(z, req, e, c).
      case (e, c) of (Some e', Some c') \<Rightarrow> nat (e' + 1 - c') | _ \<Rightarrow> 0))"
    by simp
next
  fix z :: zone and req :: bulkReq and e c :: int
  assume "c \<le> e"
  then show "((z, req, Some e, nextDate z (br_frequency req) c), (z, req, Some e, Some c))
     \<in> measure (\<lambda>(z, req, e, c).
          case (e, c) of (Some e', Some c') \<Rightarrow> nat (e' + 1 - c') | _ \<Rightarrow> 0)"
    using nextDate_later[of z "br_frequency req" c]
    by (cases "nextDate z (br_frequency req) c") auto
qed

declare bulkLoop.simps [simp del]

text \<open>
  \<^verbatim>\<open>RentSchedule.insertMany(schedules)\<close>: every document is cast and validated first
  (the two ids, and the schema's \<^verbatim>\<open>min: 0\<close> on \<^verbatim>\<open>amount\<close>), and one document that
  fails makes the call throw with nothing inserted. The inserted documents get the
  schema's defaults (status \<open>pending\<close>, late fee 0) and the ids \<open>newIds 0\<close>,
  \<open>newIds 1\<close>, ... that the driver generates.
\<close>

definition docInvalid :: "scheduleDoc \<Rightarrow> bool" where
  "docInvalid d =
     (sd_amount d < 0 \<or> castObjectId (sd_property d) = None \<or>
      castObjectId (sd_tenant d) = None)"

definition insertDoc :: "(nat \<Rightarrow> oid) \<Rightarrow> nat \<times> scheduleDoc \<Rightarrow> rentSchedule" where
  "insertDoc newIds kd =
     \<lparr>rs_id = newIds (fst kd),
      rs_property = (case castObjectId (sd_property (snd kd)) of
                       None \<Rightarrow> sd_property (snd kd) | Some j \<Rightarrow> j),
      rs_tenant = (case castObjectId (sd_tenant (snd kd)) of
                     None \<Rightarrow> sd_tenant (snd kd) | Some j \<Rightarrow> j),
      rs_amount = sd_amount (snd kd),
      rs_dueDate = sd_dueDate (snd kd), rs_status = Pending,
      rs_paymentMethod = sd_paymentMethod (snd kd), rs_lateFee = 0, rs_notes = None,
      rs_recurring = sd_recurring (snd kd), rs_frequency = sd_frequency (snd kd)\<rparr>"

definition RentSchedule_insertMany ::
  "(nat \<Rightarrow> oid) \<Rightarrow> scheduleDoc list \<Rightarrow> store \<Rightarrow> (rentSchedule list \<times> store) option" where
  "RentSchedule_insertMany newIds docs st =
     (if list_ex docInvalid docs then None
      else (let created = map (insertDoc newIds) (zip [0..<length docs] docs)
            in Some (created, st\<lparr>rentSchedules := rentSchedules st @ created\<rparr>)))"

text \<open>
  \<^verbatim>\<open>POST /api/rent-schedules/bulk\<close>: the handler body. \<open>br_startDate\<close> and
  \<open>br_endDate\<close> are \<^verbatim>\<open>new Date(startDate)\<close> and \<^verbatim>\<open>new Date(endDate)\<close>; a date
  given without a time, such as \<^verbatim>\<open>2024-01-01\<close>, is parsed as midnight UTC. The answer
  carries the count of created schedules.
\<close>

definition bulkCreate ::
  "zone \<Rightarrow> (nat \<Rightarrow> oid) \<Rightarrow> store \<Rightarrow> user \<Rightarrow> bulkReq \<Rightarrow> (error + nat) \<times> store" where
  "bulkCreate z newIds st reqUser req =
     (if br_errors req \<noteq> [] then (Inl ValidationFailed, st)
      else (case Property_findById st (br_property req) of
        CastError \<Rightarrow> (Inl ServerError, st)
      | NoDoc \<Rightarrow> (Inl NotFound, st)
      | Doc propertyDoc \<Rightarrow>
          (if u_role reqUser = Landlord \<and> p_landlord propertyDoc \<noteq> u_id reqUser
           then (Inl Forbidden, st)
           else (let schedules = bulkLoop z req (br_endDate req) (br_startDate req)
                 in (case RentSchedule_insertMany newIds schedules st of
                       None \<Rightarrow> (Inl ServerError, st)
                     | Some (createdSchedules, st1) \<Rightarrow> (Inr (length createdSchedules), st1))))))"

definition bulkCreateRoute ::
  "zone \<Rightarrow> (nat \<Rightarrow> oid) \<Rightarrow> store \<Rightarrow> user \<Rightarrow> bulkReq \<Rightarrow> (error + nat) \<times> store" where
  "bulkCreateRoute z newIds st reqUser req =
     (if authorize [Admin, Landlord] reqUser then bulkCreate z newIds st reqUser req
      else (Inl Forbidden, st))"

section \<open>A small world for concrete runs\<close>

text \<open>
  The ids of an admin, of landlords \<open>l1\<close> and \<open>l2\<close>, of tenants \<open>t1\<close> and \<open>t2\<close>, of
  properties \<open>p1\<close> to \<open>p3\<close>, of rent schedules \<open>s1\<close>, \<open>s0\<close> and \<open>s3\<close>, and of
  payments \<open>y1\<close>, \<open>y3\<close> and \<open>y9\<close>.
\<close>

definition id_admin :: oid where
  "id_admin = ''0000000000000000000000a1''"

definition id_l1 :: oid where
  "id_l1 = ''0000000000000000000000b1''"

definition id_l2 :: oid where
  "id_l2 = ''0000000000000000000000b2''"

definition id_t1 :: oid where
  "id_t1 = ''0000000000000000000000c1''"

definition id_t2 :: oid where
  "id_t2 = ''0000000000000000000000c2''"

definition id_p1 :: oid where
  "id_p1 = ''0000000000000000000000d1''"

definition id_p2 :: oid where
  "id_p2 = ''0000000000000000000000d2''"

definition id_p3 :: oid where
  "id_p3 = ''0000000000000000000000d3''"

definition id_s1 :: oid where
  "id_s1 = ''0000000000000000000000e1''"

definition id_s0 :: oid where
  "id_s0 = ''0000000000000000000000e0''"

definition id_s3 :: oid where
  "id_s3 = ''0000000000000000000000e3''"

definition id_y1 :: oid where
  "id_y1 = ''0000000000000000000000f1''"

definition id_y3 :: oid where
  "id_y3 = ''0000000000000000000000f3''"

definition id_y9 :: oid where
  "id_y9 = ''0000000000000000000000f9''"

definition mkUser :: "oid \<Rightarrow> role \<Rightarrow> user" where
  "mkUser i r = \<lparr>u_id = i, u_role = r, u_moveInDate = None, u_leaseEndDate = None\<rparr>"

definition mkProperty :: "oid \<Rightarrow> oid \<Rightarrow> oid option \<Rightarrow> propertyStatus \<Rightarrow> property" where
  "mkProperty i l t s =
     \<lparr>p_id = i, p_name = ''flat'', p_monthlyRent = 1000, p_landlord = l, p_currentTenant = t,
      p_status = s,
      p_leaseTerms = \<lparr>lt_startDate = None, lt_endDate = None, lt_renewalTerms = None\<rparr>\<rparr>"

definition ex_admin :: user where
  "ex_admin = mkUser id_admin Admin"

definition ex_landlord1 :: user where
  "ex_landlord1 = mkUser id_l1 Landlord"

definition ex_landlord2 :: user where
  "ex_landlord2 = mkUser id_l2 Landlord"

definition ex_tenant1 :: user where
  "ex_tenant1 = mkUser id_t1 Tenant"

definition ex_tenant2 :: user where
  "ex_tenant2 = mkUser id_t2 Tenant"

text \<open>
  Landlord \<open>l1\<close> owns \<open>p1\<close> (occupied by tenant \<open>t1\<close>) and \<open>p2\<close> (available);
  landlord \<open>l2\<close> owns \<open>p3\<close> (available).
\<close>

definition ex_prop1 :: property where
  "ex_prop1 = mkProperty id_p1 id_l1 (Some id_t1) Occupied"

definition ex_prop2 :: property where
  "ex_prop2 = mkProperty id_p2 id_l1 None Available"

definition ex_prop3 :: property where
  "ex_prop3 = mkProperty id_p3 id_l2 None Available"

definition ex_store :: store where
  "ex_store =
     \<lparr>users = [ex_admin, ex_landlord1, ex_landlord2, ex_tenant1, ex_tenant2],
      properties = [ex_prop1, ex_prop2, ex_prop3],
      rentSchedules = [],
      payments = []\<rparr>"

definition mkAssign :: "string \<Rightarrow> string \<Rightarrow> assignReq" where
  "mkAssign t p =
     \<lparr>ar_errors = [], ar_id = t, ar_propertyId = p, ar_moveInDate = None,
      ar_leaseEndDate = None\<rparr>"

definition mkRemove :: "string \<Rightarrow> string \<Rightarrow> removeReq" where
  "mkRemove t p = \<lparr>rr_errors = [], rr_id = t, rr_propertyId = p\<rparr>"

text \<open>
  Rent schedules \<open>s1\<close> (1000, on \<open>p1\<close>, tenant \<open>t1\<close>), \<open>s0\<close> (amount 0, on \<open>p1\<close>,
  tenant \<open>t1\<close>) and \<open>s3\<close> (500, on \<open>p3\<close>, tenant \<open>t2\<close>), all pending; one earlier
  payment of 600 against \<open>s1\<close> and one of 500 against \<open>s3\<close>.
\<close>

definition mkSchedule :: "oid \<Rightarrow> oid \<Rightarrow> oid \<Rightarrow> rat \<Rightarrow> rentSchedule" where
  "mkSchedule i p t a =
     \<lparr>rs_id = i, rs_property = p, rs_tenant = t, rs_amount = a, rs_dueDate = 1704067200000,
      rs_status = Pending, rs_paymentMethod = Online, rs_lateFee = 0, rs_notes = None,
      rs_recurring = True, rs_frequency = Monthly\<rparr>"

definition mkPayment :: "oid \<Rightarrow> oid \<Rightarrow> oid \<Rightarrow> oid \<Rightarrow> rat \<Rightarrow> nat \<Rightarrow> string \<Rightarrow> payment" where
  "mkPayment i s p t a n x =
     \<lparr>pay_id = i, pay_rentSchedule = s, pay_property = p, pay_tenant = t, pay_amount = a,
      pay_paymentDate = int n, pay_paymentMethod = Online, pay_status = Completed,
      pay_transactionId = x, pay_notes = None\<rparr>"

definition ex_sched1 :: rentSchedule where
  "ex_sched1 = mkSchedule id_s1 id_p1 id_t1 1000"

definition ex_sched0 :: rentSchedule where
  "ex_sched0 = mkSchedule id_s0 id_p1 id_t1 0"

definition ex_sched3 :: rentSchedule where
  "ex_sched3 = mkSchedule id_s3 id_p3 id_t2 500"

definition ex_pay1 :: payment where
  "ex_pay1 = mkPayment id_y1 id_s1 id_p1 id_t1 600 1704067200000 ''TXN_1704067200000_4fzyo82mv''"

definition ex_pay3 :: payment where
  "ex_pay3 = mkPayment id_y3 id_s3 id_p3 id_t2 500 1704067100000 ''TXN_1704067100000_k2j5q0x7a''"

definition ex_store2 :: store where
  "ex_store2 = ex_store\<lparr>rentSchedules := [ex_sched1, ex_sched0, ex_sched3],
                        payments := [ex_pay1, ex_pay3]\<rparr>"

definition ex_env :: env where
  "ex_env = \<lparr>e_now = 1704067200001, e_random36 = ''0.9c1tq83bdzz'', e_newId = id_y9\<rparr>"

text \<open>The same millisecond and the same random digits as the earlier payment \<open>y1\<close>.\<close>

definition ex_env_again :: env where
  "ex_env_again = \<lparr>e_now = 1704067200000, e_random36 = ''0.4fzyo82mvyr'', e_newId = id_y9\<rparr>"

definition mkPaymentReq :: "string \<Rightarrow> rat \<Rightarrow> paymentReq" where
  "mkPaymentReq s a =
     \<lparr>pr_errors = [], pr_rentSchedule = s, pr_amount = a, pr_paymentMethod = Online,
      pr_notes = None\<rparr>"

definition mkParams :: "oid option \<Rightarrow> 'st listParams" where
  "mkParams i =
     \<lparr>lp_page = 1, lp_limit = 10, lp_status = None, lp_propertyId = i, lp_tenantId = None,
      lp_dateFrom = None, lp_dateTo = None, lp_paymentMethod = None\<rparr>"

definition emptyBody :: propertyBody where
  "emptyBody =
     \<lparr>pb_errors = [], pb_name = None, pb_monthlyRent = None, pb_status = None,
      pb_landlord = None, pb_currentTenant = None\<rparr>"

text \<open>
  A bulk request by frequency for schedules on \<open>p1\<close> from 2024-01-01 to 2024-03-01 (both
  midnight UTC: 1704067200000 and 1709251200000), and the monthly request with the two
  dates exchanged.
\<close>

definition mkBulk :: "frequency \<Rightarrow> msec \<Rightarrow> msec \<Rightarrow> bulkReq" where
  "mkBulk f a b =
     \<lparr>br_errors = [], br_property = id_p1, br_tenant = id_t1, br_amount = 1000,
      br_startDate = Some a, br_endDate = Some b, br_frequency = f,
      br_paymentMethod = None\<rparr>"

definition ex_bulkReq :: bulkReq where
  "ex_bulkReq = mkBulk Monthly 1704067200000 1709251200000"

definition ex_bulkReq_backwards :: bulkReq where
  "ex_bulkReq_backwards = mkBulk Monthly 1709251200000 1704067200000"

text \<open>The driver's ids for inserted documents: the count in 24 digits.\<close>

definition ex_newIds :: "nat \<Rightarrow> oid" where
  "ex_newIds k = replicate (24 - length (showNat k)) (CHR ''0'') @ showNat k"

text \<open>
  The zone of New York with the rules of 2024: five hours behind UTC, and four hours
  behind from 2024-03-10T07:00Z (1710054000000) until 2024-11-03T06:00Z (1730613600000).
  In local time the four-hour offset applies from 03:00 on 10 March (1710039600000)
  until 02:00 on 3 November (1730599200000).
\<close>

definition ex_newYork :: zone where
  "ex_newYork =
     \<lparr>z_offsetAt = (\<lambda>t. if 1710054000000 \<le> t \<and> t < 1730613600000
                          then - 14400000 else - 18000000),
      z_offsetOfLocal = (\<lambda>t. if 1710039600000 \<le> t \<and> t < 1730599200000
                               then - 14400000 else - 18000000)\<rparr>"

lemmas id_defs =
  id_admin_def id_l1_def id_l2_def id_t1_def id_t2_def id_p1_def id_p2_def id_p3_def id_s1_def id_s0_def id_s3_def id_y1_def id_y3_def id_y9_def

lemmas world_defs =
  mkUser_def mkProperty_def ex_admin_def ex_landlord1_def ex_landlord2_def ex_tenant1_def
  ex_tenant2_def ex_prop1_def ex_prop2_def ex_prop3_def ex_store_def mkAssign_def mkRemove_def
  mkSchedule_def mkPayment_def ex_sched1_def ex_sched0_def ex_sched3_def ex_pay1_def ex_pay3_def
  ex_store2_def ex_env_def ex_env_again_def mkPaymentReq_def mkParams_def emptyBody_def
  mkBulk_def ex_bulkReq_def ex_bulkReq_backwards_def

lemmas cast_defs =
  castObjectId_def isHexDigit_def lowerHex_def findDoc_def

lemmas tenant_route_defs =
  assignPropertyRoute_def assignProperty_def removePropertyRoute_def removeProperty_def
  authorize_def User_findById_def Property_findById_def Property_save_def
  User_findByIdAndUpdate_def Let_def

lemmas payment_route_defs =
  recordPayment_def Payment_save_def transactionId_def showNat.simps digitChar_def
  RentSchedule_findById_def populateProperty_def RentSchedule_findByIdAndUpdate_def Let_def

lemmas list_route_defs =
  listRentSchedules_def rentSchedulesQuery_def scheduleMatches_def listPayments_def
  paymentsQuery_def paymentMatches_def Let_def

lemmas write_route_defs =
  deleteRentSchedule_def deleteProperty_def updateProperty_def applyBody_def
  RentSchedule_findById_def Property_findById_def populateProperty_def
  RentSchedule_findByIdAndDelete_def Property_findByIdAndDelete_def Property_save_def Let_def

section \<open>Facts about ids and the collections\<close>

lemma cast_ids:
  "castObjectId id_admin = Some id_admin" "castObjectId id_l1 = Some id_l1"
  "castObjectId id_l2 = Some id_l2" "castObjectId id_t1 = Some id_t1"
  "castObjectId id_t2 = Some id_t2" "castObjectId id_p1 = Some id_p1"
  "castObjectId id_p2 = Some id_p2" "castObjectId id_p3 = Some id_p3"
  "castObjectId id_s1 = Some id_s1" "castObjectId id_s0 = Some id_s0"
  "castObjectId id_s3 = Some id_s3"
  by (simp_all add: castObjectId_def isHexDigit_def lowerHex_def id_defs)

lemma cast_malformed: "castObjectId ''not-an-id'' = None"
  by (simp add: castObjectId_def)

lemma findDoc_Doc:
  assumes "findDoc key docs i = Doc x"
  shows "castObjectId i = Some (key x)" and "find (\<lambda>d. key d = key x) docs = Some x"
proof -
  from assms obtain j where j: "castObjectId i = Some j" and f: "find (\<lambda>d. key d = j) docs = Some x"
    by (auto simp: findDoc_def split: option.splits)
  from f have "key x = j"
    by (auto simp: find_Some_iff)
  with j f show "castObjectId i = Some (key x)" and "find (\<lambda>d. key d = key x) docs = Some x"
    by simp_all
qed

lemma findDoc_cast:
  "castObjectId i = Some j \<Longrightarrow>
   findDoc key docs i = (case find (\<lambda>d. key d = j) docs of None \<Rightarrow> NoDoc | Some d \<Rightarrow> Doc d)"
  by (simp add: findDoc_def)

lemma find_replace_same:
  "find (\<lambda>d. p_id d = p_id p) xs = Some x \<Longrightarrow>
   find (\<lambda>d. p_id d = p_id p) (map (\<lambda>d. if p_id d = p_id p then p else d) xs) = Some p"
  by (induction xs) (auto split: if_splits)

lemma Property_save_find:
  assumes "Property_findById st i = Doc x" and "p_id p = p_id x"
  shows "Property_findById (Property_save p st) i = Doc p"
proof -
  from findDoc_Doc[OF assms(1)[unfolded Property_findById_def]]
  have c: "castObjectId i = Some (p_id p)" and f: "find (\<lambda>d. p_id d = p_id p) (properties st) = Some x"
    using assms(2) by simp_all
  from find_replace_same[OF f] c show ?thesis
    by (simp add: Property_findById_def Property_save_def findDoc_cast)
qed

lemma Property_save_other:
  "q \<in> set (properties st) \<Longrightarrow> p_id q \<noteq> p_id p \<Longrightarrow> q \<in> set (properties (Property_save p st))"
  by (auto simp: Property_save_def)

lemma Property_find_user_update:
  "Property_findById (User_findByIdAndUpdate i f st) j = Property_findById st j"
  by (simp add: Property_findById_def User_findByIdAndUpdate_def)

lemma properties_user_update:
  "properties (User_findByIdAndUpdate i f st) = properties st"
  by (simp add: User_findByIdAndUpdate_def)

section \<open>Occupancy: what assign and remove do\<close>

lemma assignProperty_success:
  assumes "assignProperty st u req = (Inr r, st')"
  shows "\<exists>p. r = Some p \<and> Property_findById st' (ar_propertyId req) = Doc p \<and>
             p_status p = Occupied \<and> p_currentTenant p \<noteq> None"
proof -
  from assms obtain q where q: "Property_findById st (ar_propertyId req) = Doc q"
    by (auto simp: assignProperty_def split: if_splits lookup.splits)
  show ?thesis
    using assms q unfolding assignProperty_def Let_def
    by (auto split: if_splits option.splits lookup.splits
        simp: Property_save_find Property_find_user_update)
qed

lemma removeProperty_success:
  assumes "removeProperty st u req = (Inr r, st')"
  shows "\<exists>p. r = Some p \<and> Property_findById st' (rr_propertyId req) = Doc p \<and>
             p_status p = Available \<and> p_currentTenant p = None"
proof -
  from assms obtain q where q: "Property_findById st (rr_propertyId req) = Doc q"
    by (auto simp: removeProperty_def split: if_splits lookup.splits)
  show ?thesis
    using assms q unfolding removeProperty_def Let_def
    by (auto split: if_splits lookup.splits simp: Property_save_find)
qed

text \<open>
  C2. After every successful assign-tenant call and every successful remove-tenant call,
  the affected property, as stored, satisfies the occupancy invariant: an occupied
  property has a current tenant and an available one has none.
\<close>

theorem occupancy_after_assign_remove:
  "(assignPropertyRoute st u req = (Inr r, st') \<longrightarrow>
      (\<exists>p. r = Some p \<and> Property_findById st' (ar_propertyId req) = Doc p \<and>
           occupancyInvariant p)) \<and>
   (removePropertyRoute st2 u2 req2 = (Inr r2, st2') \<longrightarrow>
      (\<exists>p. r2 = Some p \<and> Property_findById st2' (rr_propertyId req2) = Doc p \<and>
           occupancyInvariant p))"
proof (intro conjI impI)
  assume "assignPropertyRoute st u req = (Inr r, st')"
  then have "assignProperty st u req = (Inr r, st')"
    by (simp add: assignPropertyRoute_def split: if_splits)
  from assignProperty_success[OF this]
  show "\<exists>p. r = Some p \<and> Property_findById st' (ar_propertyId req) = Doc p \<and>
      occupancyInvariant p"
    by (auto simp: occupancyInvariant_def)
next
  assume "removePropertyRoute st2 u2 req2 = (Inr r2, st2')"
  then have "removeProperty st2 u2 req2 = (Inr r2, st2')"
    by (simp add: removePropertyRoute_def split: if_splits)
  from removeProperty_success[OF this]
  show "\<exists>p. r2 = Some p \<and> Property_findById st2' (rr_propertyId req2) = Doc p \<and>
      occupancyInvariant p"
    by (auto simp: occupancyInvariant_def)
qed

text \<open>
  The admin assigns tenant \<open>t2\<close> to the available \<open>p2\<close>, and the admin removes
  tenant \<open>t1\<close> from \<open>p1\<close>: both calls succeed and the invariant holds of the results.
\<close>

theorem occupancy_after_assign_remove_witness:
  "assignPropertyRoute ex_store ex_admin (mkAssign id_t2 id_p2) =
     (Inr (Some (mkProperty id_p2 id_l1 (Some id_t2) Occupied)),
      ex_store\<lparr>properties :=
        [ex_prop1, mkProperty id_p2 id_l1 (Some id_t2) Occupied, ex_prop3]\<rparr>) \<and>
   occupancyInvariant (mkProperty id_p2 id_l1 (Some id_t2) Occupied) \<and>
   removePropertyRoute ex_store ex_admin (mkRemove id_t1 id_p1) =
     (Inr (Some (mkProperty id_p1 id_l1 None Available)),
      ex_store\<lparr>properties :=
        [mkProperty id_p1 id_l1 None Available, ex_prop2, ex_prop3]\<rparr>) \<and>
   occupancyInvariant (mkProperty id_p1 id_l1 None Available)"
proof -
  have a: "assignPropertyRoute ex_store ex_admin (mkAssign id_t2 id_p2) =
     (Inr (Some (mkProperty id_p2 id_l1 (Some id_t2) Occupied)),
      ex_store\<lparr>properties :=
        [ex_prop1, mkProperty id_p2 id_l1 (Some id_t2) Occupied, ex_prop3]\<rparr>)"
    by (simp add: tenant_route_defs cast_defs world_defs id_defs)
  have r: "removePropertyRoute ex_store ex_admin (mkRemove id_t1 id_p1) =
     (Inr (Some (mkProperty id_p1 id_l1 None Available)),
      ex_store\<lparr>properties :=
        [mkProperty id_p1 id_l1 None Available, ex_prop2, ex_prop3]\<rparr>)"
    by (simp add: tenant_route_defs cast_defs world_defs id_defs)
  from occupancy_after_assign_remove[where st=ex_store and u=ex_admin
      and req="mkAssign id_t2 id_p2"
      and r="Some (mkProperty id_p2 id_l1 (Some id_t2) Occupied)"
      and st'="ex_store\<lparr>properties :=
        [ex_prop1, mkProperty id_p2 id_l1 (Some id_t2) Occupied, ex_prop3]\<rparr>"
      and ?st2.0=ex_store and ?u2.0=ex_admin and ?req2.0="mkRemove id_t1 id_p1"
      and ?r2.0="Some (mkProperty id_p1 id_l1 None Available)"
      and st2'="ex_store\<lparr>properties :=
        [mkProperty id_p1 id_l1 None Available, ex_prop2, ex_prop3]\<rparr>"] a r
  show ?thesis by auto
qed

section \<open>Assigning to a property that is not available\<close>

text \<open>The answer of the assign route for a target that exists and is not available.\<close>

lemma assignProperty_not_available:
  assumes "Property_findById st (ar_propertyId req) = Doc p" and "p_status p \<noteq> Available"
  shows "assignProperty st u req =
     (Inl (if ar_errors req \<noteq> [] then ValidationFailed
           else (case User_findById st (ar_id req) of
                   CastError \<Rightarrow> ServerError
                 | NoDoc \<Rightarrow> NotFound
                 | Doc t \<Rightarrow>
                     if u_role t \<noteq> Tenant then NotFound
                     else if u_role u = Landlord \<and> p_landlord p \<noteq> u_id u then Forbidden
                     else InvalidState)), st)"
  using assms by (auto simp: assignProperty_def split: lookup.splits)

text \<open>
  C4, as the code has it. Assigning a tenant to a property that is not available never
  succeeds and leaves the whole store, so the property record too, unchanged, whoever
  the actor is. The answer is that of the first check that fails, in the order of the
  route: \<open>Forbidden\<close> for an actor who is neither admin nor landlord; \<open>ValidationFailed\<close>
  for an invalid body; \<open>ServerError\<close> (500) when the tenant id of the path is not a
  well-formed id, since the lookup throws; \<open>NotFound\<close> when no user has that id or the
  user is not a tenant; \<open>Forbidden\<close> for a landlord who does not own the property; and
  \<open>InvalidState\<close> otherwise. So the failure is \<open>InvalidState\<close> exactly when the actor is
  an admin or a landlord, the body is valid, the tenant exists with role tenant, and a
  landlord actor owns the property.
\<close>

theorem assign_not_available_fails:
  assumes "Property_findById st (ar_propertyId req) = Doc p" and "p_status p \<noteq> Available"
  shows "assignPropertyRoute st u req =
           (Inl (if \<not> authorize [Admin, Landlord] u then Forbidden
                 else if ar_errors req \<noteq> [] then ValidationFailed
                 else (case User_findById st (ar_id req) of
                         CastError \<Rightarrow> ServerError
                       | NoDoc \<Rightarrow> NotFound
                       | Doc t \<Rightarrow>
                           if u_role t \<noteq> Tenant then NotFound
                           else if u_role u = Landlord \<and> p_landlord p \<noteq> u_id u then Forbidden
                           else InvalidState)), st) \<and>
         (fst (assignPropertyRoute st u req) = Inl InvalidState \<longleftrightarrow>
            (authorize [Admin, Landlord] u \<and> ar_errors req = [] \<and>
             (\<exists>t. User_findById st (ar_id req) = Doc t \<and> u_role t = Tenant) \<and>
             \<not> (u_role u = Landlord \<and> p_landlord p \<noteq> u_id u)))"
proof -
  have run: "assignPropertyRoute st u req =
           (Inl (if \<not> authorize [Admin, Landlord] u then Forbidden
                 else if ar_errors req \<noteq> [] then ValidationFailed
                 else (case User_findById st (ar_id req) of
                         CastError \<Rightarrow> ServerError
                       | NoDoc \<Rightarrow> NotFound
                       | Doc t \<Rightarrow>
                           if u_role t \<noteq> Tenant then NotFound
                           else if u_role u = Landlord \<and> p_landlord p \<noteq> u_id u then Forbidden
                           else InvalidState)), st)"
    using assignProperty_not_available[OF assms, of u]
    by (simp add: assignPropertyRoute_def)
  show ?thesis
    unfolding run by (auto split: lookup.splits)
qed

text \<open>
  The admin assigns tenant \<open>t2\<close> to the occupied \<open>p1\<close>: \<open>InvalidState\<close>, store
  unchanged. With a tenant id that is not a well-formed id the answer is \<open>ServerError\<close>.
\<close>

theorem assign_not_available_fails_witness:
  "Property_findById ex_store id_p1 = Doc ex_prop1 \<and> p_status ex_prop1 \<noteq> Available \<and>
   assignPropertyRoute ex_store ex_admin (mkAssign id_t2 id_p1) = (Inl InvalidState, ex_store) \<and>
   assignPropertyRoute ex_store ex_admin (mkAssign ''not-an-id'' id_p1) =
     (Inl ServerError, ex_store)"
proof -
  have f: "Property_findById ex_store (ar_propertyId (mkAssign id_t2 id_p1)) = Doc ex_prop1"
    and f': "Property_findById ex_store (ar_propertyId (mkAssign ''not-an-id'' id_p1)) = Doc ex_prop1"
    by (simp_all add: tenant_route_defs cast_defs world_defs id_defs)
  have s: "p_status ex_prop1 \<noteq> Available"
    by (simp add: world_defs)
  have pre: "authorize [Admin, Landlord] ex_admin" "ar_errors (mkAssign id_t2 id_p1) = []"
    "User_findById ex_store (ar_id (mkAssign id_t2 id_p1)) = Doc ex_tenant2"
    "u_role ex_tenant2 = Tenant" "u_role ex_admin \<noteq> Landlord"
    "ar_errors (mkAssign ''not-an-id'' id_p1) = []"
    "User_findById ex_store (ar_id (mkAssign ''not-an-id'' id_p1)) = CastError"
    by (simp_all add: tenant_route_defs cast_defs world_defs id_defs)
  from assign_not_available_fails[OF f s, of ex_admin] pre
  have a: "assignPropertyRoute ex_store ex_admin (mkAssign id_t2 id_p1) = (Inl InvalidState, ex_store)"
    by simp
  from assign_not_available_fails[OF f' s, of ex_admin] pre
  have b: "assignPropertyRoute ex_store ex_admin (mkAssign ''not-an-id'' id_p1) =
      (Inl ServerError, ex_store)"
    by simp
  from f s a b show ?thesis
    by (simp add: mkAssign_def)
qed

text \<open>
  The claim as stated fails: landlord \<open>l2\<close>, who does not own the occupied \<open>p1\<close>,
  is answered \<open>Forbidden\<close> by the ownership check, which comes before the
  availability check.
\<close>

theorem assign_not_available_counterexample:
  "Property_findById ex_store id_p1 = Doc ex_prop1 \<and> p_status ex_prop1 = Occupied \<and>
   assignPropertyRoute ex_store ex_landlord2 (mkAssign id_t2 id_p1) = (Inl Forbidden, ex_store) \<and>
   fst (assignPropertyRoute ex_store ex_landlord2 (mkAssign id_t2 id_p1)) \<noteq> Inl InvalidState"
  by (simp add: tenant_route_defs cast_defs world_defs id_defs)

section \<open>Removing a tenant who is not the current tenant\<close>

text \<open>The answer of the remove route for a target that exists and has another tenant or none.\<close>

lemma removeProperty_not_current:
  assumes "Property_findById st (rr_propertyId req) = Doc p"
    and "p_currentTenant p \<noteq> Some (rr_id req)"
  shows "removeProperty st u req =
     (Inl (if rr_errors req \<noteq> [] then ValidationFailed
           else (case User_findById st (rr_id req) of
                   CastError \<Rightarrow> ServerError
                 | NoDoc \<Rightarrow> NotFound
                 | Doc t \<Rightarrow>
                     if u_role t \<noteq> Tenant then NotFound
                     else if u_role u = Landlord \<and> p_landlord p \<noteq> u_id u then Forbidden
                     else InvalidState)), st)"
  using assms by (auto simp: removeProperty_def split: lookup.splits)

text \<open>
  C5, as the code has it. Removing a tenant id that is not the property's current tenant
  never succeeds and leaves the whole store, so the property record too, unchanged. The
  answer is that of the first check that fails, in the order of the route: \<open>Forbidden\<close>
  for an actor who is neither admin nor landlord; \<open>ValidationFailed\<close> for an invalid
  body; \<open>ServerError\<close> (500) when the tenant id of the path is not a well-formed id,
  since the lookup throws; \<open>NotFound\<close> when no user has that id or the user is not a
  tenant; \<open>Forbidden\<close> for a landlord who does not own the property; and \<open>InvalidState\<close>
  otherwise. So the failure is \<open>InvalidState\<close> exactly when the actor is an admin or a
  landlord, the body is valid, the tenant id names a user with role tenant, and a
  landlord actor owns the property.
\<close>

theorem remove_not_current_fails:
  assumes "Property_findById st (rr_propertyId req) = Doc p"
    and "p_currentTenant p \<noteq> Some (rr_id req)"
  shows "removePropertyRoute st u req =
           (Inl (if \<not> authorize [Admin, Landlord] u then Forbidden
                 else if rr_errors req \<noteq> [] then ValidationFailed
                 else (case User_findById st (rr_id req) of
                         CastError \<Rightarrow> ServerError
                       | NoDoc \<Rightarrow> NotFound
                       | Doc t \<Rightarrow>
                           if u_role t \<noteq> Tenant then NotFound
                           else if u_role u = Landlord \<and> p_landlord p \<noteq> u_id u then Forbidden
                           else InvalidState)), st) \<and>
         (fst (removePropertyRoute st u req) = Inl InvalidState \<longleftrightarrow>
            (authorize [Admin, Landlord] u \<and> rr_errors req = [] \<and>
             (\<exists>t. User_findById st (rr_id req) = Doc t \<and> u_role t = Tenant) \<and>
             \<not> (u_role u = Landlord \<and> p_landlord p \<noteq> u_id u)))"
proof -
  have run: "removePropertyRoute st u req =
           (Inl (if \<not> authorize [Admin, Landlord] u then Forbidden
                 else if rr_errors req \<noteq> [] then ValidationFailed
                 else (case User_findById st (rr_id req) of
                         CastError \<Rightarrow> ServerError
                       | NoDoc \<Rightarrow> NotFound
                       | Doc t \<Rightarrow>
                           if u_role t \<noteq> Tenant then NotFound
                           else if u_role u = Landlord \<and> p_landlord p \<noteq> u_id u then Forbidden
                           else InvalidState)), st)"
    using removeProperty_not_current[OF assms, of u]
    by (simp add: removePropertyRoute_def)
  show ?thesis
    unfolding run by (auto split: lookup.splits)
qed

text \<open>
  Landlord \<open>l1\<close> removes tenant \<open>t2\<close> from their own \<open>p1\<close>, whose current tenant is
  \<open>t1\<close>: \<open>InvalidState\<close>, store unchanged. With a tenant id that is not a well-formed
  id the answer is \<open>ServerError\<close>.
\<close>

theorem remove_not_current_fails_witness:
  "Property_findById ex_store id_p1 = Doc ex_prop1 \<and> p_currentTenant ex_prop1 \<noteq> Some id_t2 \<and>
   removePropertyRoute ex_store ex_landlord1 (mkRemove id_t2 id_p1) = (Inl InvalidState, ex_store) \<and>
   p_currentTenant ex_prop1 \<noteq> Some ''not-an-id'' \<and>
   removePropertyRoute ex_store ex_landlord1 (mkRemove ''not-an-id'' id_p1) =
     (Inl ServerError, ex_store)"
proof -
  have f: "Property_findById ex_store (rr_propertyId (mkRemove id_t2 id_p1)) = Doc ex_prop1"
    and f': "Property_findById ex_store (rr_propertyId (mkRemove ''not-an-id'' id_p1)) = Doc ex_prop1"
    by (simp_all add: tenant_route_defs cast_defs world_defs id_defs)
  have s: "p_currentTenant ex_prop1 \<noteq> Some (rr_id (mkRemove id_t2 id_p1))"
    and s': "p_currentTenant ex_prop1 \<noteq> Some (rr_id (mkRemove ''not-an-id'' id_p1))"
    by (simp_all add: world_defs id_defs)
  have pre: "authorize [Admin, Landlord] ex_landlord1" "rr_errors (mkRemove id_t2 id_p1) = []"
    "User_findById ex_store (rr_id (mkRemove id_t2 id_p1)) = Doc ex_tenant2"
    "u_role ex_tenant2 = Tenant" "p_landlord ex_prop1 = u_id ex_landlord1"
    "rr_errors (mkRemove ''not-an-id'' id_p1) = []"
    "User_findById ex_store (rr_id (mkRemove ''not-an-id'' id_p1)) = CastError"
    by (simp_all add: tenant_route_defs cast_defs world_defs id_defs)
  from remove_not_current_fails[OF f s, of ex_landlord1] pre
  have a: "removePropertyRoute ex_store ex_landlord1 (mkRemove id_t2 id_p1) =
      (Inl InvalidState, ex_store)"
    by simp
  from remove_not_current_fails[OF f' s', of ex_landlord1] pre
  have b: "removePropertyRoute ex_store ex_landlord1 (mkRemove ''not-an-id'' id_p1) =
      (Inl ServerError, ex_store)"
    by simp
  from f s s' a b show ?thesis
    by (simp add: mkRemove_def)
qed

text \<open>
  The claim as stated fails: landlord \<open>l2\<close>, who does not own \<open>p1\<close>, asks to remove
  tenant \<open>t2\<close>, who is not its current tenant, and is answered \<open>Forbidden\<close>.
\<close>

theorem remove_not_current_counterexample:
  "Property_findById ex_store id_p1 = Doc ex_prop1 \<and> p_currentTenant ex_prop1 \<noteq> Some id_t2 \<and>
   removePropertyRoute ex_store ex_landlord2 (mkRemove id_t2 id_p1) = (Inl Forbidden, ex_store) \<and>
   fst (removePropertyRoute ex_store ex_landlord2 (mkRemove id_t2 id_p1)) \<noteq> Inl InvalidState"
  by (simp add: tenant_route_defs cast_defs world_defs id_defs)

section \<open>One tenant, two properties\<close>

text \<open>
  C10. The assign-tenant call looks at the tenant's existence and role, the actor's right
  to the target property and the target property's availability, and at nothing else:
  under these conditions alone it succeeds, makes the tenant the current tenant of the
  now occupied target, and leaves every other property as it was, whatever the tenant's
  other assignments are.
\<close>

theorem assign_ignores_other_assignments:
  assumes "authorize [Admin, Landlord] u" and "ar_errors req = []"
    and "User_findById st (ar_id req) = Doc t" and "u_role t = Tenant"
    and "Property_findById st (ar_propertyId req) = Doc p"
    and "\<not> (u_role u = Landlord \<and> p_landlord p \<noteq> u_id u)"
    and "p_status p = Available"
  shows "\<exists>p' st'. assignPropertyRoute st u req = (Inr (Some p'), st') \<and>
           Property_findById st' (ar_propertyId req) = Doc p' \<and>
           castObjectId (ar_id req) = Some (u_id t) \<and>
           p_currentTenant p' = Some (u_id t) \<and> p_status p' = Occupied \<and>
           castObjectId (ar_propertyId req) = Some (p_id p) \<and>
           (\<forall>q \<in> set (properties st). p_id q \<noteq> p_id p \<longrightarrow> q \<in> set (properties st'))"
proof -
  have tid: "castObjectId (ar_id req) = Some (u_id t)"
    using findDoc_Doc(1)[OF assms(3)[unfolded User_findById_def]] .
  have pid: "castObjectId (ar_propertyId req) = Some (p_id p)"
    using findDoc_Doc(1)[OF assms(5)[unfolded Property_findById_def]] .
  define p3 where "p3 =
    (case ar_leaseEndDate req of
       None \<Rightarrow> (case ar_moveInDate req of
                  None \<Rightarrow> p\<lparr>p_currentTenant := Some (u_id t), p_status := Occupied\<rparr>
                | Some d \<Rightarrow> p\<lparr>p_currentTenant := Some (u_id t), p_status := Occupied,
                              p_leaseTerms := (p_leaseTerms p)\<lparr>lt_startDate := Some d\<rparr>\<rparr>)
     | Some e \<Rightarrow> (case ar_moveInDate req of
                  None \<Rightarrow> p\<lparr>p_currentTenant := Some (u_id t), p_status := Occupied,
                              p_leaseTerms := (p_leaseTerms p)\<lparr>lt_endDate := Some e\<rparr>\<rparr>
                | Some d \<Rightarrow> p\<lparr>p_currentTenant := Some (u_id t), p_status := Occupied,
                              p_leaseTerms := (p_leaseTerms p)\<lparr>lt_startDate := Some d,
                                                               lt_endDate := Some e\<rparr>\<rparr>))"
  have p3id: "p_id p3 = p_id p"
    and p3t: "p_currentTenant p3 = Some (u_id t)" and p3s: "p_status p3 = Occupied"
    by (simp_all add: p3_def split: option.splits)
  have found: "Property_findById (Property_save p3 st) (ar_propertyId req) = Doc p3"
    using assms(5) p3id by (rule Property_save_find)
  obtain st' where run: "assignProperty st u req = (Inr (Some p3), st')"
    and props: "properties st' = properties (Property_save p3 st)"
    and found': "Property_findById st' (ar_propertyId req) = Doc p3"
    using assms found
    by (auto simp: assignProperty_def Let_def p3_def Property_find_user_update
        properties_user_update split: option.splits)
  have others: "\<forall>q \<in> set (properties st). p_id q \<noteq> p_id p \<longrightarrow> q \<in> set (properties st')"
    using props p3id by (simp add: Property_save_other)
  from run assms(1) have "assignPropertyRoute st u req = (Inr (Some p3), st')"
    by (simp add: assignPropertyRoute_def)
  with found' p3t p3s others tid pid show ?thesis
    by blast
qed

text \<open>
  Tenant \<open>t1\<close> is the current tenant of the occupied \<open>p1\<close>. The admin assigns \<open>t1\<close>
  to the available \<open>p2\<close>: the call succeeds, and afterwards \<open>t1\<close> is the current
  tenant of both \<open>p1\<close> and \<open>p2\<close>, both occupied.
\<close>

theorem assign_ignores_other_assignments_witness:
  "p_currentTenant ex_prop1 = Some id_t1 \<and> p_status ex_prop1 = Occupied \<and>
   Property_findById ex_store id_p1 = Doc ex_prop1 \<and>
   assignPropertyRoute ex_store ex_admin (mkAssign id_t1 id_p2) =
     (Inr (Some (mkProperty id_p2 id_l1 (Some id_t1) Occupied)),
      ex_store\<lparr>properties :=
        [ex_prop1, mkProperty id_p2 id_l1 (Some id_t1) Occupied, ex_prop3]\<rparr>) \<and>
   (\<exists>p' st'. assignPropertyRoute ex_store ex_admin (mkAssign id_t1 id_p2) = (Inr (Some p'), st') \<and>
      Property_findById st' id_p2 = Doc p' \<and>
      p_currentTenant p' = Some id_t1 \<and> p_status p' = Occupied \<and>
      ex_prop1 \<in> set (properties st'))"
proof -
  have pre: "authorize [Admin, Landlord] ex_admin" "ar_errors (mkAssign id_t1 id_p2) = []"
    "User_findById ex_store (ar_id (mkAssign id_t1 id_p2)) = Doc ex_tenant1"
    "u_role ex_tenant1 = Tenant"
    "Property_findById ex_store (ar_propertyId (mkAssign id_t1 id_p2)) = Doc ex_prop2"
    "\<not> (u_role ex_admin = Landlord \<and> p_landlord ex_prop2 \<noteq> u_id ex_admin)"
    "p_status ex_prop2 = Available"
    by (simp_all add: tenant_route_defs cast_defs world_defs id_defs)
  have mem: "ex_prop1 \<in> set (properties ex_store)" "p_id ex_prop1 \<noteq> p_id ex_prop2"
    "u_id ex_tenant1 = id_t1"
    by (simp_all add: world_defs id_defs)
  have run: "assignPropertyRoute ex_store ex_admin (mkAssign id_t1 id_p2) =
     (Inr (Some (mkProperty id_p2 id_l1 (Some id_t1) Occupied)),
      ex_store\<lparr>properties :=
        [ex_prop1, mkProperty id_p2 id_l1 (Some id_t1) Occupied, ex_prop3]\<rparr>)"
    by (simp add: tenant_route_defs cast_defs world_defs id_defs)
  have here: "p_currentTenant ex_prop1 = Some id_t1 \<and> p_status ex_prop1 = Occupied \<and>
      Property_findById ex_store id_p1 = Doc ex_prop1"
    by (simp add: tenant_route_defs cast_defs world_defs id_defs)
  from assign_ignores_other_assignments[OF pre] mem
  have "\<exists>p' st'. assignPropertyRoute ex_store ex_admin (mkAssign id_t1 id_p2) = (Inr (Some p'), st') \<and>
      Property_findById st' id_p2 = Doc p' \<and>
      p_currentTenant p' = Some id_t1 \<and> p_status p' = Occupied \<and>
      ex_prop1 \<in> set (properties st')"
    by (fastforce simp: mkAssign_def)
  with run here show ?thesis
    by blast
qed

section \<open>Settlement: the schedule's status after a payment\<close>

lemma find_rs_update:
  assumes "\<And>d. rs_id (f d) = rs_id d"
  shows "find (\<lambda>d. rs_id d = i) (map (\<lambda>d. if rs_id d = i then f d else d) xs) =
         map_option f (find (\<lambda>d. rs_id d = i) xs)"
  using assms by (induction xs) auto

lemma RentSchedule_find_update:
  assumes "RentSchedule_findById st i = Doc s" and "\<And>d. rs_id (f d) = rs_id d"
  shows "RentSchedule_findById (RentSchedule_findByIdAndUpdate (rs_id s) f st) i = Doc (f s)"
proof -
  from findDoc_Doc[OF assms(1)[unfolded RentSchedule_findById_def]]
  have c: "castObjectId i = Some (rs_id s)"
    and f: "find (\<lambda>d. rs_id d = rs_id s) (rentSchedules st) = Some s"
    by simp_all
  show ?thesis
    using c f find_rs_update[of f "rs_id s" "rentSchedules st", OF assms(2)]
    by (simp add: RentSchedule_findById_def RentSchedule_findByIdAndUpdate_def findDoc_cast)
qed

lemma RentSchedule_find_Payment_save:
  "Payment_save p st = Some st1 \<Longrightarrow> RentSchedule_findById st1 i = RentSchedule_findById st i"
  by (auto simp: Payment_save_def RentSchedule_findById_def split: if_splits)

lemma payments_rs_update: "payments (RentSchedule_findByIdAndUpdate i f st) = payments st"
  by (simp add: RentSchedule_findByIdAndUpdate_def)

text \<open>
  C1, as the code has it. A call to record a payment against an existing rent schedule
  by an authorized actor (admin, the landlord of the schedule's property, or the
  schedule's tenant), with a valid body, an existing property, an amount that the schema
  accepts (not negative) and a fresh transaction id, succeeds, appends the payment, and
  sets the schedule's status from this payment's amount alone, whatever payments are
  already stored: \<open>paid\<close> when the amount reaches the schedule's amount, also when both
  are 0; \<open>partial\<close> when it lies strictly between 0 and the schedule's amount; unchanged
  when it is 0 and the schedule's amount is positive. Nothing else of the schedule changes.
\<close>

theorem payment_sets_schedule_status:
  assumes "pr_errors req = []"
    and "RentSchedule_findById st (pr_rentSchedule req) = Doc s"
    and "populateProperty st (rs_property s) = Some p"
    and "u_role u = Admin \<or> p_landlord p = u_id u \<or> rs_tenant s = u_id u"
    and "0 \<le> pr_amount req"
    and "transactionId e \<notin> set (map pay_transactionId (payments st))"
  shows "\<exists>pay st'. recordPayment e st u req = (Inr pay, st') \<and>
           pay_amount pay = pr_amount req \<and> pay_rentSchedule pay = rs_id s \<and>
           castObjectId (pr_rentSchedule req) = Some (rs_id s) \<and>
           payments st' = payments st @ [pay] \<and>
           RentSchedule_findById st' (pr_rentSchedule req) =
             Doc (s\<lparr>rs_status :=
                      (if rs_amount s \<le> pr_amount req then Paid
                       else if 0 < pr_amount req then Partial
                       else rs_status s)\<rparr>)"
proof -
  define pay where "pay =
    \<lparr>pay_id = e_newId e, pay_rentSchedule = rs_id s, pay_property = p_id p,
     pay_tenant = rs_tenant s, pay_amount = pr_amount req, pay_paymentDate = int (e_now e),
     pay_paymentMethod = pr_paymentMethod req, pay_status = Completed,
     pay_transactionId = transactionId e, pay_notes = pr_notes req\<rparr>"
  define st1 where "st1 = st\<lparr>payments := payments st @ [pay]\<rparr>"
  have sid: "castObjectId (pr_rentSchedule req) = Some (rs_id s)"
    using findDoc_Doc(1)[OF assms(2)[unfolded RentSchedule_findById_def]] .
  have save: "Payment_save pay st = Some st1"
    using assms(5,6) by (simp add: Payment_save_def pay_def st1_def)
  have f1: "RentSchedule_findById st1 (pr_rentSchedule req) = Doc s"
    using RentSchedule_find_Payment_save[OF save] assms(2) by simp
  define st2 where "st2 =
    (if pr_amount req \<ge> rs_amount s
     then RentSchedule_findByIdAndUpdate (rs_id s) (\<lambda>d. d\<lparr>rs_status := Paid\<rparr>) st1
     else if pr_amount req > 0
     then RentSchedule_findByIdAndUpdate (rs_id s) (\<lambda>d. d\<lparr>rs_status := Partial\<rparr>) st1
     else st1)"
  have run: "recordPayment e st u req = (Inr pay, st2)"
    using assms(1-4) save
    by (simp add: recordPayment_def Let_def pay_def[symmetric] st2_def)
  have p2: "payments st2 = payments st @ [pay]"
    by (simp add: st2_def payments_rs_update st1_def)
  have f2: "RentSchedule_findById st2 (pr_rentSchedule req) =
      Doc (s\<lparr>rs_status :=
               (if rs_amount s \<le> pr_amount req then Paid
                else if 0 < pr_amount req then Partial
                else rs_status s)\<rparr>)"
    using f1 by (simp add: st2_def RentSchedule_find_update)
  from run p2 f2 sid show ?thesis
    by (simp add: pay_def)
qed

text \<open>
  Schedule \<open>s1\<close> asks for 1000 and already has a payment of 600. Its tenant records a
  second payment of 600: the status becomes \<open>partial\<close>, not \<open>paid\<close>, since the two
  payments are not added up.
\<close>

theorem payment_sets_schedule_status_witness:
  "RentSchedule_findById ex_store2 id_s1 = Doc ex_sched1 \<and> rs_amount ex_sched1 = 1000 \<and>
   ex_pay1 \<in> set (payments ex_store2) \<and> pay_rentSchedule ex_pay1 = id_s1 \<and>
   pay_amount ex_pay1 = 600 \<and>
   (\<exists>pay st'. recordPayment ex_env ex_store2 ex_tenant1 (mkPaymentReq id_s1 600) = (Inr pay, st') \<and>
      pay_amount pay = 600 \<and> payments st' = payments ex_store2 @ [pay] \<and>
      RentSchedule_findById st' id_s1 = Doc (ex_sched1\<lparr>rs_status := Partial\<rparr>))"
proof -
  have pre: "pr_errors (mkPaymentReq id_s1 600) = []"
    "RentSchedule_findById ex_store2 (pr_rentSchedule (mkPaymentReq id_s1 600)) = Doc ex_sched1"
    "populateProperty ex_store2 (rs_property ex_sched1) = Some ex_prop1"
    "u_role ex_tenant1 = Admin \<or> p_landlord ex_prop1 = u_id ex_tenant1 \<or>
       rs_tenant ex_sched1 = u_id ex_tenant1"
    "0 \<le> pr_amount (mkPaymentReq id_s1 600)"
    "transactionId ex_env \<notin> set (map pay_transactionId (payments ex_store2))"
    by (simp_all add: payment_route_defs cast_defs world_defs id_defs)
  have here: "RentSchedule_findById ex_store2 id_s1 = Doc ex_sched1 \<and>
      rs_amount ex_sched1 = 1000 \<and> ex_pay1 \<in> set (payments ex_store2) \<and>
      pay_rentSchedule ex_pay1 = id_s1 \<and> pay_amount ex_pay1 = 600"
    by (simp add: payment_route_defs cast_defs world_defs id_defs)
  have amt: "pr_amount (mkPaymentReq id_s1 600) = 600"
    "pr_rentSchedule (mkPaymentReq id_s1 600) = id_s1" "rs_amount ex_sched1 = 1000"
    by (simp_all add: world_defs)
  from payment_sets_schedule_status[OF pre] here show ?thesis
    unfolding amt by auto
qed

text \<open>
  The claim as stated fails where its cases overlap: schedule \<open>s0\<close> asks for 0, and a
  payment of 0 against it makes it \<open>paid\<close> instead of leaving it \<open>pending\<close>.
\<close>

theorem payment_zero_amount_counterexample:
  "RentSchedule_findById ex_store2 id_s0 = Doc ex_sched0 \<and> rs_status ex_sched0 = Pending \<and>
   pr_amount (mkPaymentReq id_s0 0) = 0 \<and>
   RentSchedule_findById
     (snd (recordPayment ex_env ex_store2 ex_tenant1 (mkPaymentReq id_s0 0))) id_s0 =
     Doc (ex_sched0\<lparr>rs_status := Paid\<rparr>)"
  by (simp add: payment_route_defs cast_defs world_defs id_defs)

section \<open>Transaction identifiers\<close>

lemma recordPayment_payments:
  "payments (snd (recordPayment e st u req)) = payments st \<or>
   (transactionId e \<notin> set (map pay_transactionId (payments st)) \<and>
    (\<exists>pay. pay_transactionId pay = transactionId e \<and>
       payments (snd (recordPayment e st u req)) = payments st @ [pay]))"
  by (auto simp: recordPayment_def Let_def Payment_save_def payments_rs_update
      split: option.splits lookup.splits)

lemma recordPayment_collision:
  assumes "transactionId e \<in> set (map pay_transactionId (payments st))"
  shows "snd (recordPayment e st u req) = st"
    and "\<exists>err. fst (recordPayment e st u req) = Inl err"
    and "pr_errors req = [] \<Longrightarrow> RentSchedule_findById st (pr_rentSchedule req) = Doc s \<Longrightarrow>
         populateProperty st (rs_property s) = Some p \<Longrightarrow>
         u_role u = Admin \<or> p_landlord p = u_id u \<or> rs_tenant s = u_id u \<Longrightarrow>
         fst (recordPayment e st u req) = Inl ServerError"
  using assms
  by (auto simp: recordPayment_def Let_def Payment_save_def split: option.splits lookup.splits)

text \<open>
  C9, as the code has it. The transaction ids of the stored payments stay pairwise
  distinct through every call, since the unique index rejects a second document with an
  id already stored. When the generated id collides with a stored one, the call does not
  succeed and changes nothing: no payment is added and the schedule keeps its status.
  There is no second attempt with a new id: once the request has passed validation, the
  schedule and property lookups and the access check, the collision is answered by the
  generic \<open>ServerError\<close> (500) of the \<^verbatim>\<open>catch\<close> block.
\<close>

theorem transaction_ids_stay_unique:
  "(distinct (map pay_transactionId (payments st)) \<longrightarrow>
      distinct (map pay_transactionId (payments (snd (recordPayment e st u req))))) \<and>
   (transactionId e \<in> set (map pay_transactionId (payments st)) \<longrightarrow>
      snd (recordPayment e st u req) = st \<and>
      (\<exists>err. fst (recordPayment e st u req) = Inl err) \<and>
      (pr_errors req = [] \<and> RentSchedule_findById st (pr_rentSchedule req) = Doc s \<and>
       populateProperty st (rs_property s) = Some p \<and>
       (u_role u = Admin \<or> p_landlord p = u_id u \<or> rs_tenant s = u_id u) \<longrightarrow>
       fst (recordPayment e st u req) = Inl ServerError))"
proof (intro conjI impI)
  assume d: "distinct (map pay_transactionId (payments st))"
  from recordPayment_payments[of e st u req]
  show "distinct (map pay_transactionId (payments (snd (recordPayment e st u req))))"
    using d by auto
next
  assume c: "transactionId e \<in> set (map pay_transactionId (payments st))"
  show "snd (recordPayment e st u req) = st"
    using c by (rule recordPayment_collision(1))
  show "\<exists>err. fst (recordPayment e st u req) = Inl err"
    using c by (rule recordPayment_collision(2))
next
  assume c: "transactionId e \<in> set (map pay_transactionId (payments st))"
    and h: "pr_errors req = [] \<and> RentSchedule_findById st (pr_rentSchedule req) = Doc s \<and>
       populateProperty st (rs_property s) = Some p \<and>
       (u_role u = Admin \<or> p_landlord p = u_id u \<or> rs_tenant s = u_id u)"
  from recordPayment_collision(3)[OF c, of req s p u] h
  show "fst (recordPayment e st u req) = Inl ServerError"
    by blast
qed

text \<open>
  The stored transaction ids of the example are distinct and stay so through a payment
  with a fresh id; a payment generated in the same millisecond with the same random
  digits as payment \<open>y1\<close> changes nothing.
\<close>

theorem transaction_ids_stay_unique_witness:
  "distinct (map pay_transactionId (payments ex_store2)) \<and>
   distinct (map pay_transactionId
     (payments (snd (recordPayment ex_env ex_store2 ex_tenant1 (mkPaymentReq id_s1 1000))))) \<and>
   length (payments (snd (recordPayment ex_env ex_store2 ex_tenant1 (mkPaymentReq id_s1 1000)))) = 3 \<and>
   transactionId ex_env_again \<in> set (map pay_transactionId (payments ex_store2)) \<and>
   snd (recordPayment ex_env_again ex_store2 ex_tenant1 (mkPaymentReq id_s1 1000)) = ex_store2 \<and>
   fst (recordPayment ex_env_again ex_store2 ex_tenant1 (mkPaymentReq id_s1 1000)) = Inl ServerError"
proof -
  have d: "distinct (map pay_transactionId (payments ex_store2))"
    by (simp add: world_defs)
  have c: "transactionId ex_env_again \<in> set (map pay_transactionId (payments ex_store2))"
    by (simp add: payment_route_defs world_defs)
  have h: "pr_errors (mkPaymentReq id_s1 1000) = [] \<and>
      RentSchedule_findById ex_store2 (pr_rentSchedule (mkPaymentReq id_s1 1000)) = Doc ex_sched1 \<and>
      populateProperty ex_store2 (rs_property ex_sched1) = Some ex_prop1 \<and>
      (u_role ex_tenant1 = Admin \<or> p_landlord ex_prop1 = u_id ex_tenant1 \<or>
       rs_tenant ex_sched1 = u_id ex_tenant1)"
    by (simp add: payment_route_defs cast_defs world_defs id_defs)
  have n: "length (payments (snd (recordPayment ex_env ex_store2 ex_tenant1
      (mkPaymentReq id_s1 1000)))) = 3"
    by (simp add: payment_route_defs cast_defs world_defs id_defs)
  from transaction_ids_stay_unique[of ex_store2 ex_env ex_tenant1 "mkPaymentReq id_s1 1000"] d
  have d': "distinct (map pay_transactionId
      (payments (snd (recordPayment ex_env ex_store2 ex_tenant1 (mkPaymentReq id_s1 1000)))))"
    by blast
  from transaction_ids_stay_unique[of ex_store2 ex_env_again ex_tenant1
      "mkPaymentReq id_s1 1000" ex_sched1 ex_prop1] c h
  have "snd (recordPayment ex_env_again ex_store2 ex_tenant1 (mkPaymentReq id_s1 1000)) = ex_store2"
    and "fst (recordPayment ex_env_again ex_store2 ex_tenant1 (mkPaymentReq id_s1 1000)) =
      Inl ServerError"
    by blast+
  with d d' n c show ?thesis
    by blast
qed

text \<open>
  The claim as stated fails: the colliding call is not retried with a new id, it is
  answered by the generic server error.
\<close>

theorem transaction_id_collision_counterexample:
  "transactionId ex_env_again = pay_transactionId ex_pay1 \<and>
   ex_pay1 \<in> set (payments ex_store2) \<and>
   recordPayment ex_env_again ex_store2 ex_tenant1 (mkPaymentReq id_s1 1000) =
     (Inl ServerError, ex_store2)"
  by (simp add: payment_route_defs cast_defs world_defs id_defs)

section \<open>Deleting a rent schedule\<close>

lemma deleteRentSchedule_landlord_foreign:
  assumes "u_role u = Landlord" and "RentSchedule_findById st i = Doc s"
    and "populateProperty st (rs_property s) = Some p" and "p_landlord p \<noteq> u_id u"
  shows "deleteRentSchedule st u i = (Inl Forbidden, st)"
  using assms by (simp add: deleteRentSchedule_def)

text \<open>
  C3. The claim asks that a tenant's delete of a rent schedule is answered \<open>Forbidden\<close>
  and deletes nothing. The route does not do so: it has no role check for tenants. Here
  tenant \<open>t2\<close> deletes schedule \<open>s1\<close>, which belongs to tenant \<open>t1\<close> on a property of
  landlord \<open>l1\<close>; the call succeeds and the schedule is gone.
\<close>

theorem tenant_deletes_rent_schedule:
  "u_role ex_tenant2 = Tenant \<and>
   RentSchedule_findById ex_store2 id_s1 = Doc ex_sched1 \<and>
   deleteRentSchedule ex_store2 ex_tenant2 id_s1 =
     (Inr (), ex_store2\<lparr>rentSchedules := [ex_sched0, ex_sched3]\<rparr>) \<and>
   RentSchedule_findById (snd (deleteRentSchedule ex_store2 ex_tenant2 id_s1)) id_s1 = NoDoc"
  by (simp add: write_route_defs cast_defs world_defs id_defs)

section \<open>Updating and deleting a property\<close>

lemma property_write_landlord_foreign:
  assumes "u_role u = Landlord" and "Property_findById st i = Doc p"
    and "p_landlord p \<noteq> u_id u"
  shows "deleteProperty st u i = (Inl Forbidden, st)"
    and "pb_errors b = [] \<Longrightarrow> updateProperty st u i b = (Inl Forbidden, st)"
  using assms by (simp_all add: deleteProperty_def updateProperty_def)

lemma property_write_admin:
  assumes "u_role u = Admin" and "Property_findById st i = Doc p"
  shows "fst (deleteProperty st u i) = Inr ()"
    and "pb_errors b = [] \<Longrightarrow> pb_monthlyRent b = None \<Longrightarrow>
         fst (updateProperty st u i b) = Inr (applyBody b p)"
  using assms by (simp_all add: deleteProperty_def updateProperty_def)

text \<open>
  C6. The claim asks that every update or delete of a property by a tenant is denied. The
  routes deny only a landlord who is not the owner: tenant \<open>t2\<close>, who is assigned to no
  property, sets the status of \<open>p1\<close> to \<open>unavailable\<close> and then deletes \<open>p1\<close>, and
  both calls succeed.
\<close>

theorem tenant_writes_property:
  "u_role ex_tenant2 = Tenant \<and>
   Property_findById ex_store2 id_p1 = Doc ex_prop1 \<and>
   updateProperty ex_store2 ex_tenant2 id_p1 (emptyBody\<lparr>pb_status := Some Unavailable\<rparr>) =
     (Inr (ex_prop1\<lparr>p_status := Unavailable\<rparr>),
      ex_store2\<lparr>properties := [ex_prop1\<lparr>p_status := Unavailable\<rparr>, ex_prop2, ex_prop3]\<rparr>) \<and>
   deleteProperty ex_store2 ex_tenant2 id_p1 =
     (Inr (), ex_store2\<lparr>properties := [ex_prop2, ex_prop3]\<rparr>)"
  by (simp add: write_route_defs cast_defs world_defs id_defs)

section \<open>Listing rent schedules and payments\<close>

lemma tenant_lists_own:
  assumes "u_role u = Tenant"
  shows "d \<in> set (fst (listRentSchedules st u ps)) \<Longrightarrow> rs_tenant d = u_id u"
    and "y \<in> set (fst (listPayments st u qs)) \<Longrightarrow> pay_tenant y = u_id u"
  using assms
  by (auto simp: list_route_defs split: option.splits dest!: in_set_takeD in_set_dropD)

lemma landlord_lists_own_without_propertyId:
  assumes "u_role u = Landlord" and "lp_propertyId ps = None"
    and "d \<in> set (fst (listRentSchedules st u ps))"
  shows "\<exists>p \<in> set (properties st). p_id p = rs_property d \<and> p_landlord p = u_id u"
proof -
  from assms have "rs_property d \<in> p_id ` {p \<in> set (properties st). p_landlord p = u_id u}"
    by (auto simp: list_route_defs split: option.splits dest!: in_set_takeD in_set_dropD)
  then show ?thesis
    by auto
qed

text \<open>
  C7. The claim asks that a landlord lists only records tied to properties they own,
  whatever filters the caller supplies. The \<^verbatim>\<open>propertyId\<close> filter replaces the
  landlord's \<^verbatim>\<open>$in\<close> restriction on the same key: landlord \<open>l2\<close>, who owns only
  \<open>p3\<close>, asks with \<^verbatim>\<open>propertyId = p1\<close> and is given the rent schedules and the
  payment of \<open>p1\<close>, a property of landlord \<open>l1\<close>.
\<close>

theorem landlord_lists_foreign_records:
  "u_role ex_landlord2 = Landlord \<and>
   Property_findById ex_store2 id_p1 = Doc ex_prop1 \<and> p_landlord ex_prop1 = id_l1 \<and>
   u_id ex_landlord2 = id_l2 \<and> id_l1 \<noteq> id_l2 \<and>
   listRentSchedules ex_store2 ex_landlord2 (mkParams (Some id_p1)) = ([ex_sched1, ex_sched0], 2) \<and>
   rs_property ex_sched1 = id_p1 \<and> rs_property ex_sched0 = id_p1 \<and>
   listPayments ex_store2 ex_landlord2 (mkParams (Some id_p1)) = ([ex_pay1], 1) \<and>
   pay_property ex_pay1 = id_p1"
  by (simp add: list_route_defs write_route_defs cast_defs world_defs id_defs)

section \<open>The calendar functions agree with their defining properties\<close>

lemma YearFromDay_unique:
  assumes "DayFromYear y \<le> z" and "z < DayFromYear (y + 1)"
  shows "YearFromDay z = y"
proof (rule antisym)
  show "y \<le> YearFromDay z"
    using assms(1) by (rule YearFromDay_largest)
  show "YearFromDay z \<le> y"
  proof (rule ccontr)
    assume "\<not> YearFromDay z \<le> y"
    then have "y + 1 \<le> YearFromDay z" by simp
    then have "DayFromYear (y + 1) \<le> DayFromYear (YearFromDay z)"
      using DayFromYear_strict_mono[of "y + 1" "YearFromDay z"]
      by (cases "y + 1 = YearFromDay z") auto
    with YearFromDay_bounds(1)[of z] assms(2) show False by linarith
  qed
qed

lemma TimeWithinDay_range: "0 \<le> TimeWithinDay t \<and> TimeWithinDay t < msPerDay"
  by (simp add: TimeWithinDay_def msPerDay_def)

lemma DateFromTime_pos: "1 \<le> DateFromTime t"
proof -
  have w: "0 \<le> DayWithinYear t"
    using YearFromDay_bounds(1)[of "Day t"] by (simp add: DayWithinYear_def YearFromTime_def)
  have l: "InLeapYear t = 0 \<or> InLeapYear t = 1"
    unfolding InLeapYear_def by (rule LeapFlag_range)
  show ?thesis
    unfolding DateFromTime_def MonthFromTime_def Let_def monthStart_def
    using w l by auto
qed

text \<open>
  \<^verbatim>\<open>MakeDay\<close> and \<^verbatim>\<open>MakeDate\<close> are specified through the time value whose year,
  month, date and time within the day are the given ones. For a month from 0 to 11 and a
  date that every month has (1 to 28), the time value computed here decodes to exactly
  these.
\<close>

lemma MakeDay_decodes:
  fixes ym mn d tw :: int
  assumes "0 \<le> mn" and "mn \<le> 11" and "1 \<le> d" and "d \<le> 28" and "0 \<le> tw" and "tw < msPerDay"
  defines "t \<equiv> MakeDate (DayFromYear ym + monthStart mn (LeapFlag ym) + d - 1) tw"
  shows "YearFromTime t = ym \<and> MonthFromTime t = mn \<and> DateFromTime t = d \<and>
         TimeWithinDay t = tw"
proof -
  have l: "LeapFlag ym = 0 \<or> LeapFlag ym = 1"
    by (rule LeapFlag_range)
  have dy: "Day t = DayFromYear ym + monthStart mn (LeapFlag ym) + d - 1"
    unfolding t_def MakeDate_def Day_def
    using assms(5,6) by (intro int_div_pos_eq[where r=tw]) (simp_all add: mult.commute)
  have tw: "TimeWithinDay t = tw"
    unfolding t_def MakeDate_def TimeWithinDay_def
    using assms(5,6) by (intro int_mod_pos_eq[where r=tw]) (simp_all add: mult.commute)
  have cases: "mn = 0 \<or> mn = 1 \<or> mn = 2 \<or> mn = 3 \<or> mn = 4 \<or> mn = 5 \<or> mn = 6 \<or> mn = 7 \<or>
      mn = 8 \<or> mn = 9 \<or> mn = 10 \<or> mn = 11"
    using assms(1,2) by arith
  have len: "DaysInYear ym = 365 + LeapFlag ym"
    using DaysInYear_range[of ym] by (auto simp: LeapFlag_def)
  have "0 \<le> monthStart mn (LeapFlag ym) + d - 1"
    and "monthStart mn (LeapFlag ym) + d - 1 < DaysInYear ym"
    using l assms(3,4) unfolding len by (auto simp: monthStart_def)
  then have y: "YearFromTime t = ym"
    unfolding YearFromTime_def dy using DayFromYear_Suc[of ym]
    by (intro YearFromDay_unique) linarith+
  have w: "DayWithinYear t = monthStart mn (LeapFlag ym) + d - 1"
    and i: "InLeapYear t = LeapFlag ym"
    by (simp_all add: DayWithinYear_def InLeapYear_def y dy)
  have m: "MonthFromTime t = mn"
    unfolding MonthFromTime_def w i Let_def
    using cases l assms(3,4) by (elim disjE) (simp_all add: monthStart_def)
  have "DateFromTime t = d"
    by (simp add: DateFromTime_def w i m)
  with y m tw show ?thesis
    by simp
qed

text \<open>
  What one step of the loop does to the calendar fields. For a current date whose day of
  the month in local time is at most 28, the new local time has the same day of the
  month and the same time of day, and its month is the next one (monthly), the third
  next (quarterly), or the same month of the next year (yearly); the new time value is
  this local time taken back to UTC with the offset that applies there. (From the 29th
  on, the day may not exist in the new month and then runs over into the month after.)
\<close>

lemma nextDate_calendar:
  fixes z :: zone and tv :: msec and f :: frequency
  defines "t \<equiv> LocalTime z tv"
  defines "k \<equiv> (case f of Monthly \<Rightarrow> 1 | Quarterly \<Rightarrow> 3 | Yearly \<Rightarrow> 12)"
  assumes "DateFromTime t \<le> 28"
  shows "\<exists>n. nextDate z f tv = TimeClip (UTC z n) \<and>
           YearFromTime n = YearFromTime t + (MonthFromTime t + k) div 12 \<and>
           MonthFromTime n = (MonthFromTime t + k) mod 12 \<and>
           DateFromTime n = DateFromTime t \<and> TimeWithinDay n = TimeWithinDay t"
proof -
  have mr: "0 \<le> MonthFromTime t" "MonthFromTime t \<le> 11"
    using MonthFromTime_range[of t] by simp_all
  have dec: "YearFromTime n = ym \<and> MonthFromTime n = mn \<and> DateFromTime n = DateFromTime t \<and>
      TimeWithinDay n = TimeWithinDay t"
    if "n = MakeDate (DayFromYear ym + monthStart mn (LeapFlag ym) + DateFromTime t - 1)
          (TimeWithinDay t)" and "0 \<le> mn" and "mn \<le> 11" for n ym mn
    unfolding that(1)
    using that(2,3) DateFromTime_pos[of t] assms(3) TimeWithinDay_range[of t]
    by (intro MakeDay_decodes) simp_all
  have mm: "0 \<le> x mod 12" "x mod 12 \<le> 11" for x :: int
    by simp_all
  show ?thesis
  proof (cases f)
    case Monthly
    define n where "n = MakeDate (MakeDay (YearFromTime t) (MonthFromTime t + 1) (DateFromTime t))
        (TimeWithinDay t)"
    have "nextDate z f tv = TimeClip (UTC z n)"
      by (simp add: Monthly nextDate_def setMonth_def getMonth_def Let_def t_def n_def)
    moreover have "YearFromTime n = YearFromTime t + (MonthFromTime t + 1) div 12 \<and>
        MonthFromTime n = (MonthFromTime t + 1) mod 12 \<and>
        DateFromTime n = DateFromTime t \<and> TimeWithinDay n = TimeWithinDay t"
      using mm[of "MonthFromTime t + 1"]
      by (intro dec) (simp_all add: n_def MakeDay_def Let_def)
    ultimately show ?thesis
      unfolding k_def Monthly by (intro exI[of _ n]) simp
  next
    case Quarterly
    define n where "n = MakeDate (MakeDay (YearFromTime t) (MonthFromTime t + 3) (DateFromTime t))
        (TimeWithinDay t)"
    have "nextDate z f tv = TimeClip (UTC z n)"
      by (simp add: Quarterly nextDate_def setMonth_def getMonth_def Let_def t_def n_def)
    moreover have "YearFromTime n = YearFromTime t + (MonthFromTime t + 3) div 12 \<and>
        MonthFromTime n = (MonthFromTime t + 3) mod 12 \<and>
        DateFromTime n = DateFromTime t \<and> TimeWithinDay n = TimeWithinDay t"
      using mm[of "MonthFromTime t + 3"]
      by (intro dec) (simp_all add: n_def MakeDay_def Let_def)
    ultimately show ?thesis
      unfolding k_def Quarterly by (intro exI[of _ n]) simp
  next
    case Yearly
    define n where "n = MakeDate (MakeDay (YearFromTime t + 1) (MonthFromTime t) (DateFromTime t))
        (TimeWithinDay t)"
    have m0: "MonthFromTime t div 12 = 0" "MonthFromTime t mod 12 = MonthFromTime t"
      using mr by simp_all
    have m12: "(MonthFromTime t + 12) div 12 = 1" "(MonthFromTime t + 12) mod 12 = MonthFromTime t"
      using mr by simp_all
    have "nextDate z f tv = TimeClip (UTC z n)"
      by (simp add: Yearly nextDate_def setFullYear_def getFullYear_def Let_def t_def n_def)
    moreover have "YearFromTime n = YearFromTime t + 1 \<and>
        MonthFromTime n = MonthFromTime t \<and>
        DateFromTime n = DateFromTime t \<and> TimeWithinDay n = TimeWithinDay t"
      using mr by (intro dec) (simp_all add: n_def MakeDay_def Let_def m0)
    ultimately show ?thesis
      unfolding k_def Yearly by (intro exI[of _ n]) (simp add: m12 m0)
  qed
qed

section \<open>Bulk generation\<close>

lemma advance_Some: "advance z f (Some c) = nextDate z f c"
  by (simp add: advance_def)

lemma advance_None: "advance z f None = None"
  by (simp add: advance_def)

text \<open>
  The schedules of the loop are the dates \<open>start\<close>, \<open>step start\<close>,
  \<open>step (step start)\<close>, ... up to the first one that is after the end date or invalid.
\<close>

lemma bulkLoop_nth:
  "k < length (bulkLoop z req e c) \<Longrightarrow>
   bulkLoop z req e c ! k = mkDoc req (sd_dueDate (bulkLoop z req e c ! k)) \<and>
   (advance z (br_frequency req) ^^ k) c = Some (sd_dueDate (bulkLoop z req e c ! k)) \<and>
   dateLe ((advance z (br_frequency req) ^^ k) c) e"
proof (induction z req e c arbitrary: k rule: bulkLoop.induct)
  case (1 z req e c)
  show ?case
  proof (cases "c \<le> e")
    case True
    then have unf: "bulkLoop z req (Some e) (Some c) =
        mkDoc req c # bulkLoop z req (Some e) (nextDate z (br_frequency req) c)"
      by (simp add: bulkLoop.simps)
    show ?thesis
    proof (cases k)
      case 0
      then show ?thesis using True by (simp add: unf mkDoc_def)
    next
      case (Suc j)
      with "1.prems" have j: "j < length (bulkLoop z req (Some e) (nextDate z (br_frequency req) c))"
        by (simp add: unf)
      from "1.IH"[OF True j] show ?thesis
        unfolding unf Suc funpow_Suc_right o_apply advance_Some nth_Cons_Suc
        by blast
    qed
  next
    case False
    with "1.prems" show ?thesis by (simp add: bulkLoop.simps)
  qed
next
  case (2 z req c)
  then show ?case by (simp add: bulkLoop.simps)
next
  case (3 z req e)
  then show ?case by (simp add: bulkLoop.simps)
qed

lemma bulkLoop_stop:
  "\<not> dateLe ((advance z (br_frequency req) ^^ length (bulkLoop z req e c)) c) e"
proof (induction z req e c rule: bulkLoop.induct)
  case (1 z req e c)
  show ?case
  proof (cases "c \<le> e")
    case True
    then have unf: "bulkLoop z req (Some e) (Some c) =
        mkDoc req c # bulkLoop z req (Some e) (nextDate z (br_frequency req) c)"
      by (simp add: bulkLoop.simps)
    from "1.IH"[OF True] show ?thesis
      by (simp add: unf funpow_swap1 advance_Some)
  next
    case False
    then show ?thesis by (simp add: bulkLoop.simps)
  qed
next
  case (2 z req c)
  then show ?case by (simp add: bulkLoop.simps)
next
  case (3 z req e)
  then show ?case by (simp add: bulkLoop.simps)
qed

lemma advance_beyond: "\<not> dateLe d e \<Longrightarrow> \<not> dateLe (advance z f d) e"
proof (cases d)
  case None
  then show ?thesis by (simp add: advance_None)
next
  case (Some c)
  assume n: "\<not> dateLe d e"
  show ?thesis
  proof (cases e)
    case None
    then show ?thesis by (cases "advance z f d") simp_all
  next
    case (Some b)
    show ?thesis
    proof (cases "nextDate z f c")
      case None
      then show ?thesis using \<open>d = Some c\<close> by (simp add: advance_Some)
    next
      case (Some c')
      then have "c < c'" by (rule nextDate_later)
      with n \<open>d = Some c\<close> \<open>e = Some b\<close> Some show ?thesis
        by (simp add: advance_Some)
    qed
  qed
qed

lemma funpow_beyond: "\<not> dateLe d e \<Longrightarrow> \<not> dateLe ((advance z f ^^ j) d) e"
  by (induction j) (simp_all add: advance_beyond)

lemma bulkLoop_iff:
  "dateLe ((advance z (br_frequency req) ^^ k) c) e \<longleftrightarrow> k < length (bulkLoop z req e c)"
proof
  assume le: "dateLe ((advance z (br_frequency req) ^^ k) c) e"
  show "k < length (bulkLoop z req e c)"
  proof (rule ccontr)
    assume "\<not> k < length (bulkLoop z req e c)"
    then obtain j where k: "k = j + length (bulkLoop z req e c)"
      by (metis le_add_diff_inverse2 not_less)
    have "\<not> dateLe ((advance z (br_frequency req) ^^ j)
        ((advance z (br_frequency req) ^^ length (bulkLoop z req e c)) c)) e"
      using bulkLoop_stop by (rule funpow_beyond)
    with le show False by (simp add: k funpow_add)
  qed
next
  assume "k < length (bulkLoop z req e c)"
  then show "dateLe ((advance z (br_frequency req) ^^ k) c) e"
    using bulkLoop_nth by blast
qed

lemma bulkLoop_mkDoc: "d \<in> set (bulkLoop z req e c) \<Longrightarrow> d = mkDoc req (sd_dueDate d)"
  by (metis bulkLoop_nth in_set_conv_nth)

lemma bulkLoop_empty:
  "\<not> dateLe c e \<Longrightarrow> bulkLoop z req e c = []"
  using bulkLoop_iff[where z=z and req=req and k=0 and c=c and e=e] by simp

lemma insertMany_ok:
  assumes "\<not> list_ex docInvalid docs"
  shows "RentSchedule_insertMany newIds docs st =
    Some (map (insertDoc newIds) (zip [0..<length docs] docs),
          st\<lparr>rentSchedules := rentSchedules st @ map (insertDoc newIds) (zip [0..<length docs] docs)\<rparr>)"
  using assms by (simp add: RentSchedule_insertMany_def Let_def)

lemma created_fields:
  assumes "d \<in> set (map (insertDoc newIds) (zip ks (bulkLoop z req e c)))"
  shows "rs_status d = Pending \<and> rs_recurring d \<and> rs_frequency d = br_frequency req"
proof -
  from assms obtain k x where x: "x \<in> set (bulkLoop z req e c)"
    and d: "d = insertDoc newIds (k, x)"
    by (auto dest: set_zip_rightD)
  from x have "x = mkDoc req (sd_dueDate x)"
    by (rule bulkLoop_mkDoc)
  then have "sd_recurring x \<and> sd_frequency x = br_frequency req"
    by (metis mkDoc_def scheduleDoc.select_convs(6) scheduleDoc.select_convs(7))
  then show ?thesis
    by (simp add: d insertDoc_def)
qed

lemma created_dueDates:
  "map rs_dueDate (map (insertDoc newIds) (zip [0..<length ds] ds)) = map sd_dueDate ds"
  by (rule nth_equalityI) (simp_all add: insertDoc_def)

text \<open>
  For an admin or the property's landlord, a valid body, an existing property and
  documents that the schema accepts (an amount that is not negative and a well-formed
  tenant id) or an empty batch, the route answers with the count of the loop's schedules
  and inserts them.
\<close>

lemma bulkCreateRoute_success:
  assumes "authorize [Admin, Landlord] u" and "br_errors req = []"
    and "Property_findById st (br_property req) = Doc p"
    and "\<not> (u_role u = Landlord \<and> p_landlord p \<noteq> u_id u)"
    and "(0 \<le> br_amount req \<and> castObjectId (br_tenant req) \<noteq> None) \<or>
         \<not> dateLe (br_startDate req) (br_endDate req)"
  shows "bulkCreateRoute z newIds st u req =
     (Inr (length (bulkLoop z req (br_endDate req) (br_startDate req))),
      st\<lparr>rentSchedules := rentSchedules st @
          map (insertDoc newIds)
            (zip [0..<length (bulkLoop z req (br_endDate req) (br_startDate req))]
               (bulkLoop z req (br_endDate req) (br_startDate req)))\<rparr>)"
proof -
  have pc: "castObjectId (br_property req) \<noteq> None"
    using findDoc_Doc(1)[OF assms(3)[unfolded Property_findById_def]] by simp
  have "\<not> list_ex docInvalid (bulkLoop z req (br_endDate req) (br_startDate req))"
  proof (cases "0 \<le> br_amount req \<and> castObjectId (br_tenant req) \<noteq> None")
    case True
    have "\<not> docInvalid d" if "d \<in> set (bulkLoop z req (br_endDate req) (br_startDate req))" for d
    proof -
      from that have "d = mkDoc req (sd_dueDate d)"
        by (rule bulkLoop_mkDoc)
      then have "sd_amount d = br_amount req \<and> sd_property d = br_property req \<and>
          sd_tenant d = br_tenant req"
        by (metis mkDoc_def scheduleDoc.select_convs(1) scheduleDoc.select_convs(2)
            scheduleDoc.select_convs(3))
      with True pc show ?thesis
        by (simp add: docInvalid_def)
    qed
    then show ?thesis
      unfolding list_ex_iff by blast
  next
    case False
    with assms(5) have "bulkLoop z req (br_endDate req) (br_startDate req) = []"
      using bulkLoop_empty by blast
    then show ?thesis by simp
  qed
  from insertMany_ok[OF this, of newIds st] assms(1-4) show ?thesis
    by (simp add: bulkCreateRoute_def bulkCreate_def Let_def)
qed

subsection \<open>Runs of the loop\<close>

text \<open>
  On a server whose local time is UTC: monthly from 2024-01-01 to 2024-03-01 gives
  2024-01-01, 2024-02-01 and 2024-03-01; quarterly from 2024-01-01 to 2024-12-31 gives
  the first of January, April, July and October; yearly from 2024-01-01 to 2026-01-01
  gives the first of January of 2024, 2025 and 2026.
\<close>

lemma ex_bulk_monthly_utc:
  "bulkLoop utcZone ex_bulkReq (Some 1709251200000) (Some 1704067200000) =
     [mkDoc ex_bulkReq 1704067200000, mkDoc ex_bulkReq 1706745600000,
      mkDoc ex_bulkReq 1709251200000]"
  by code_simp

lemma ex_bulk_quarterly_utc:
  "map sd_dueDate (bulkLoop utcZone (mkBulk Quarterly 1704067200000 1735603200000)
     (Some 1735603200000) (Some 1704067200000)) =
     [1704067200000, 1711929600000, 1719792000000, 1727740800000]"
  by code_simp

lemma ex_bulk_yearly_utc:
  "map sd_dueDate (bulkLoop utcZone (mkBulk Yearly 1704067200000 1767225600000)
     (Some 1767225600000) (Some 1704067200000)) =
     [1704067200000, 1735689600000, 1767225600000]"
  by code_simp

text \<open>
  Monthly from 2024-01-31 to 2024-04-30, in UTC: "31 February" runs over to 2 March, and
  the following dates stay on the 2nd; no schedule falls in February.
\<close>

lemma ex_bulk_month_end_utc:
  "map sd_dueDate (bulkLoop utcZone (mkBulk Monthly 1706659200000 1714435200000)
     (Some 1714435200000) (Some 1706659200000)) =
     [1706659200000, 1709337600000, 1712016000000]"
  by code_simp

text \<open>
  In New York, monthly from 2024-10-15 to 2024-11-15 (midnight UTC both): the start is
  20:00 on 14 October in local time, at four hours behind UTC; 20:00 on 14 November is
  five hours behind UTC, that is 2024-11-15T01:00Z, after the end date: one schedule.
\<close>

lemma ex_bulk_monthly_newYork_autumn:
  "map sd_dueDate (bulkLoop ex_newYork (mkBulk Monthly 1728950400000 1731628800000)
     (Some 1731628800000) (Some 1728950400000)) = [1728950400000] \<and>
   nextDate ex_newYork Monthly 1728950400000 = Some 1731632400000"
  by code_simp

lemma ex_bulk_monthly_newYork:
  "bulkLoop ex_newYork ex_bulkReq (Some 1709251200000) (Some 1704067200000) =
     [mkDoc ex_bulkReq 1704067200000, mkDoc ex_bulkReq 1706745600000] \<and>
   nextDate ex_newYork Monthly 1706745600000 = Some 1709424000000"
  by code_simp

lemma ex_bulk_pre:
  "authorize [Admin, Landlord] ex_landlord1 \<and> br_errors (mkBulk f a b) = [] \<and>
   Property_findById ex_store2 (br_property (mkBulk f a b)) = Doc ex_prop1 \<and>
   \<not> (u_role ex_landlord1 = Landlord \<and> p_landlord ex_prop1 \<noteq> u_id ex_landlord1) \<and>
   0 \<le> br_amount (mkBulk f a b) \<and> castObjectId (br_tenant (mkBulk f a b)) \<noteq> None \<and>
   br_startDate (mkBulk f a b) = Some a \<and> br_endDate (mkBulk f a b) = Some b \<and>
   br_frequency (mkBulk f a b) = f \<and> length (rentSchedules ex_store2) = 3"
  by (simp add: authorize_def Property_findById_def cast_defs world_defs id_defs)

text \<open>
  The claim's run on a server in UTC: landlord \<open>l1\<close> asks for monthly schedules on their
  property \<open>p1\<close> from 2024-01-01 to 2024-03-01, and exactly three schedules are
  inserted, due 2024-01-01, 2024-02-01 and 2024-03-01, pending and recurring. With the
  two dates exchanged the answer is a count of 0 and the store is unchanged.
\<close>

lemma ex_bulk_route_utc:
  "fst (bulkCreateRoute utcZone ex_newIds ex_store2 ex_landlord1 ex_bulkReq) = Inr 3 \<and>
   map rs_dueDate
     (drop 3 (rentSchedules (snd (bulkCreateRoute utcZone ex_newIds ex_store2 ex_landlord1
        ex_bulkReq)))) = [1704067200000, 1706745600000, 1709251200000] \<and>
   list_all (\<lambda>d. rs_status d = Pending \<and> rs_recurring d \<and> rs_frequency d = Monthly)
     (drop 3 (rentSchedules (snd (bulkCreateRoute utcZone ex_newIds ex_store2 ex_landlord1
        ex_bulkReq)))) \<and>
   bulkCreateRoute utcZone ex_newIds ex_store2 ex_landlord1 ex_bulkReq_backwards =
     (Inr 0, ex_store2)"
proof -
  note pre = ex_bulk_pre[of Monthly 1704067200000 1709251200000, folded ex_bulkReq_def]
  have loop: "bulkLoop utcZone ex_bulkReq (br_endDate ex_bulkReq) (br_startDate ex_bulkReq) =
      [mkDoc ex_bulkReq 1704067200000, mkDoc ex_bulkReq 1706745600000,
       mkDoc ex_bulkReq 1709251200000]"
    using ex_bulk_monthly_utc pre by simp
  have up: "[0..<3] = [0, 1, 2]"
    by (simp add: upt_rec)
  have run: "bulkCreateRoute utcZone ex_newIds ex_store2 ex_landlord1 ex_bulkReq =
      (Inr 3, ex_store2\<lparr>rentSchedules := rentSchedules ex_store2 @
         map (insertDoc ex_newIds)
           (zip [0..<3] [mkDoc ex_bulkReq 1704067200000, mkDoc ex_bulkReq 1706745600000,
              mkDoc ex_bulkReq 1709251200000])\<rparr>)"
    using bulkCreateRoute_success[where z=utcZone and req=ex_bulkReq and u=ex_landlord1
        and st=ex_store2 and p=ex_prop1 and newIds=ex_newIds] pre
    unfolding loop by (simp add: up eval_nat_numeral)
  have n3: "length (rentSchedules ex_store2) = 3" and fr: "br_frequency ex_bulkReq = Monthly"
    using pre by blast+
  note pre2 = ex_bulk_pre[of Monthly 1709251200000 1704067200000, folded ex_bulkReq_backwards_def]
  have bw: "\<not> dateLe (br_startDate ex_bulkReq_backwards) (br_endDate ex_bulkReq_backwards)"
    using pre2 by simp
  then have e: "bulkLoop utcZone ex_bulkReq_backwards (br_endDate ex_bulkReq_backwards)
      (br_startDate ex_bulkReq_backwards) = []"
    by (rule bulkLoop_empty)
  have run2: "bulkCreateRoute utcZone ex_newIds ex_store2 ex_landlord1 ex_bulkReq_backwards =
      (Inr 0, ex_store2)"
    using bulkCreateRoute_success[where z=utcZone and req=ex_bulkReq_backwards
        and u=ex_landlord1 and st=ex_store2 and p=ex_prop1 and newIds=ex_newIds] pre2
    unfolding e by simp
  show ?thesis
    unfolding run run2 using n3 fr by (simp add: up insertDoc_def mkDoc_def)
qed

text \<open>
  C8. The claim asks that bulk generation from 2024-01-01 to 2024-03-01, monthly, yields
  exactly three schedules, dated 2024-01-01, 2024-02-01 and 2024-03-01. The route does
  so only where the server's local time is UTC or ahead of it. The loop advances the
  date with \<^verbatim>\<open>setMonth(getMonth() + 1)\<close>, which works on local calendar fields, while
  the dates of the request are midnight UTC. On a server in New York, landlord \<open>l1\<close>
  asks for these schedules on their property \<open>p1\<close>: 2024-01-01T00:00Z is 19:00 on
  31 December there, so the first step gives 19:00 on 31 January (2024-02-01T00:00Z),
  and the second gives "31 February", which runs over to 19:00 on 2 March
  (2024-03-03T00:00Z, 1709424000000), after the end date. Two schedules are inserted,
  not three, and none for March.
\<close>

theorem bulk_example_behind_utc:
  "authorize [Admin, Landlord] ex_landlord1 \<and>
   Property_findById ex_store2 (br_property ex_bulkReq) = Doc ex_prop1 \<and>
   p_landlord ex_prop1 = u_id ex_landlord1 \<and> br_errors ex_bulkReq = [] \<and>
   br_startDate ex_bulkReq = Some 1704067200000 \<and> br_endDate ex_bulkReq = Some 1709251200000 \<and>
   br_frequency ex_bulkReq = Monthly \<and>
   bulkLoop ex_newYork ex_bulkReq (br_endDate ex_bulkReq) (br_startDate ex_bulkReq) =
     [mkDoc ex_bulkReq 1704067200000, mkDoc ex_bulkReq 1706745600000] \<and>
   advance ex_newYork Monthly (Some 1706745600000) = Some 1709424000000 \<and>
   fst (bulkCreateRoute ex_newYork ex_newIds ex_store2 ex_landlord1 ex_bulkReq) = Inr 2 \<and>
   map rs_dueDate
     (drop 3 (rentSchedules (snd (bulkCreateRoute ex_newYork ex_newIds ex_store2 ex_landlord1
        ex_bulkReq)))) = [1704067200000, 1706745600000]"
proof -
  note pre = ex_bulk_pre[of Monthly 1704067200000 1709251200000, folded ex_bulkReq_def]
  have loop: "bulkLoop ex_newYork ex_bulkReq (br_endDate ex_bulkReq) (br_startDate ex_bulkReq) =
      [mkDoc ex_bulkReq 1704067200000, mkDoc ex_bulkReq 1706745600000]"
    using ex_bulk_monthly_newYork pre by simp
  have adv: "advance ex_newYork Monthly (Some 1706745600000) = Some 1709424000000"
    using ex_bulk_monthly_newYork by (simp add: advance_Some)
  have own: "p_landlord ex_prop1 = u_id ex_landlord1"
    by (simp add: world_defs)
  have up: "[0..<2] = [0, 1]"
    by (simp add: upt_rec)
  have run: "bulkCreateRoute ex_newYork ex_newIds ex_store2 ex_landlord1 ex_bulkReq =
      (Inr 2, ex_store2\<lparr>rentSchedules := rentSchedules ex_store2 @
         map (insertDoc ex_newIds)
           (zip [0..<2] [mkDoc ex_bulkReq 1704067200000, mkDoc ex_bulkReq 1706745600000])\<rparr>)"
    using bulkCreateRoute_success[where z=ex_newYork and req=ex_bulkReq and u=ex_landlord1
        and st=ex_store2 and p=ex_prop1 and newIds=ex_newIds] pre
    unfolding loop by (simp add: up eval_nat_numeral)
  have n3: "length (rentSchedules ex_store2) = 3"
    using pre by blast
  have due: "map rs_dueDate (drop 3 (rentSchedules (snd (bulkCreateRoute ex_newYork ex_newIds
      ex_store2 ex_landlord1 ex_bulkReq)))) = [1704067200000, 1706745600000]"
    unfolding run using n3 by (simp add: up insertDoc_def mkDoc_def)
  have cnt: "fst (bulkCreateRoute ex_newYork ex_newIds ex_store2 ex_landlord1 ex_bulkReq) = Inr 2"
    unfolding run by simp
  from pre own loop adv cnt due show ?thesis
    by blast
qed

end
